theory Spec2Isabelle
  imports Main
begin

section \<open>Python values used by the server\<close>

text \<open>
  A Python \<open>str\<close> is modelled as a \<open>string\<close>; one \<open>char\<close> stands for one Python
  character with a code point below 256, so \<open>length\<close> counts what \<open>len\<close> counts.
  Exceptions are values: a function that can raise returns \<open>exn + 'a\<close>, with \<open>Inl\<close>
  for the exception. \<open>ToolError\<close> is the exception the tools raise for a caller error
  (the InvalidArgument kind); \<open>ValueError\<close>, \<open>TypeError\<close> and \<open>AttributeError\<close> are
  the three kinds \<open>format_email_date\<close> catches; \<open>OtherError\<close> is any other exception
  (a provider error, an \<open>OverflowError\<close> of the standard library).
\<close>

datatype exn =
    ToolError string
  | ValueError string
  | TypeError string
  | AttributeError string
  | OtherError string

text \<open>\<open>str(e)\<close>: the message of an exception.\<close>

fun str_exn :: "exn \<Rightarrow> string" where
  "str_exn (ToolError m) = m"
| "str_exn (ValueError m) = m"
| "str_exn (TypeError m) = m"
| "str_exn (AttributeError m) = m"
| "str_exn (OtherError m) = m"

text \<open>Sequencing of two steps that may raise: the first exception wins.\<close>

fun bind_exn :: "exn + 'a \<Rightarrow> ('a \<Rightarrow> exn + 'b) \<Rightarrow> exn + 'b" where
  "bind_exn (Inl e) f = Inl e"
| "bind_exn (Inr x) f = f x"

text \<open>Truthiness of an optional string: \<open>None\<close> and \<open>''\<close> are false.\<close>

fun truthy :: "string option \<Rightarrow> bool" where
  "truthy None = False"
| "truthy (Some s) = (s \<noteq> [])"

text \<open>\<open>s.startswith(p)\<close>\<close>

definition startswith :: "string \<Rightarrow> string \<Rightarrow> bool" where
  "startswith p s = (take (length p) s = p)"

text \<open>\<open>sep.join(xs)\<close>\<close>

fun join :: "string \<Rightarrow> string list \<Rightarrow> string" where
  "join sep [] = []"
| "join sep [x] = x"
| "join sep (x # y # ys) = x @ sep @ join sep (y # ys)"

text \<open>
  \<open>c.isalnum()\<close> on the code points below 256: the ASCII digits and letters, and the
  Latin-1 letters and numeric characters (feminine and masculine ordinal, superscript
  digits, micro sign, vulgar fractions, accented letters).
\<close>

definition isalnum :: "char \<Rightarrow> bool" where
  "isalnum c =
     (let n = (of_char c :: nat) in
        (48 \<le> n \<and> n \<le> 57) \<or> (65 \<le> n \<and> n \<le> 90) \<or> (97 \<le> n \<and> n \<le> 122)
        \<or> n = 170 \<or> n = 178 \<or> n = 179 \<or> n = 181 \<or> n = 185 \<or> n = 186
        \<or> (188 \<le> n \<and> n \<le> 190) \<or> (192 \<le> n \<and> n \<le> 214)
        \<or> (216 \<le> n \<and> n \<le> 246) \<or> (248 \<le> n \<and> n \<le> 255))"


subsection \<open>Text\<close>

text \<open>The newline character, and \<open>str(n)\<close> for a number and \<open>str(b)\<close> for a boolean.\<close>

abbreviation nl :: string where
  "nl \<equiv> [CHR 0x0A]"

definition digit_char :: "nat \<Rightarrow> char" where
  "digit_char n = ''0123456789'' ! (n mod 10)"

function show_nat :: "nat \<Rightarrow> string" where
  "show_nat n = (if n < 10 then [digit_char n] else show_nat (n div 10) @ [digit_char n])"
  by pat_completeness auto
termination
  by (relation "measure (\<lambda>n. n)") auto

declare show_nat.simps [simp del]

definition show_int :: "int \<Rightarrow> string" where
  "show_int i = (if i < 0 then ''-'' @ show_nat (nat (- i)) else show_nat (nat i))"

definition show_bool :: "bool \<Rightarrow> string" where
  "show_bool b = (if b then ''True'' else ''False'')"

text \<open>\<open>d.get(key, default)\<close> on a dictionary of strings.\<close>

definition dict_get :: "(string \<rightharpoonup> string) \<Rightarrow> string \<Rightarrow> string \<Rightarrow> string" where
  "dict_get d key dflt = (case d key of None \<Rightarrow> dflt | Some v \<Rightarrow> v)"

text \<open>\<open>len(s.encode('utf-8'))\<close>: a character below 128 is one byte, the others two.\<close>

definition utf8_len :: "string \<Rightarrow> nat" where
  "utf8_len s = sum_list (map (\<lambda>c. if (of_char c :: nat) < 128 then 1 else 2) s)"


subsection \<open>String methods\<close>

text \<open>
  \<open>s.lower()\<close>, \<open>s.strip()\<close>, \<open>s.split(sep)\<close> and \<open>s.replace(old, new)\<close> for single
  characters, on the characters below 256: the upper-case letters are the ASCII ones
  and the Latin-1 ones (192 to 222 without the multiplication sign), each 32 below its
  lower-case letter; white space is the characters 9 to 13, 28 to 32, 133 and 160.
\<close>

definition lower_char :: "char \<Rightarrow> char" where
  "lower_char c =
     (let n = (of_char c :: nat)
      in if (65 \<le> n \<and> n \<le> 90) \<or> (192 \<le> n \<and> n \<le> 214) \<or> (216 \<le> n \<and> n \<le> 222)
         then char_of (n + 32) else c)"

definition lower :: "string \<Rightarrow> string" where
  "lower s = map lower_char s"

definition isspace :: "char \<Rightarrow> bool" where
  "isspace c =
     (let n = (of_char c :: nat)
      in (9 \<le> n \<and> n \<le> 13) \<or> (28 \<le> n \<and> n \<le> 32) \<or> n = 133 \<or> n = 160)"

definition strip :: "string \<Rightarrow> string" where
  "strip s = rev (dropWhile isspace (rev (dropWhile isspace s)))"

fun split :: "char \<Rightarrow> string \<Rightarrow> string list" where
  "split sep [] = [[]]"
| "split sep (c # s) =
     (if c = sep then [] # split sep s
      else (case split sep s of
              [] \<Rightarrow> [[c]]
            | field # fields \<Rightarrow> (c # field) # fields))"

definition replace_char :: "char \<Rightarrow> char \<Rightarrow> string \<Rightarrow> string" where
  "replace_char old new s = map (\<lambda>c. if c = old then new else c) s"


section \<open>The provider's data and the service handle\<close>

text \<open>
  A message of the provider is a dictionary; the model keeps the keys the functions
  below read. A key read with \<open>.get\<close> or tested with \<open>in\<close> is optional; \<open>payload\<close>, and
  in a part \<open>mimeType\<close>, \<open>headers\<close> and \<open>body\<close>, are indexed directly by
  \<open>get_headers_dict\<close> and \<open>parse_message_body\<close> and are always present in what the
  provider returns. The payload of a message is itself a part. Field names carry a
  prefix (\<open>b_\<close>, \<open>p_\<close>, \<open>m_\<close>) before the key of the dictionary.
\<close>

record body =
  b_data :: "string option"
  b_attachmentId :: "string option"
  b_size :: "int option"

datatype part =
  Part (p_mimeType: string) (p_filename: "string option")
       (p_headers: "(string \<times> string) list") (p_body: body) (p_parts: "part list option")

record message =
  m_threadId :: "string option"
  m_labelIds :: "string list option"
  m_payload :: part

text \<open>An entry of the provider's answer to a listing: \<open>{'id': ..., 'threadId': ...}\<close>.\<close>

record msg_info =
  info_id :: string
  info_threadId :: string

text \<open>
  The service handle is the provider seen from the server: what it answers to a
  listing (user, maximal number of results, query) and to the fetch of one message
  (user, message id); an answer is a value or a raised exception. Every call is
  recorded in the world, which also holds the files of the export directory.
\<close>

record service =
  messages_list :: "string \<Rightarrow> int \<Rightarrow> string \<Rightarrow> exn + msg_info list"
  messages_get :: "string \<Rightarrow> string \<Rightarrow> exn + message"

datatype request =
    ListRequest string int string
  | GetRequest string string

record world =
  requests :: "request list"
  files :: "string \<rightharpoonup> string"

text \<open>
  \<open>list_messages\<close> of gmail.py:
  \<^verbatim>\<open>service.users().messages().list(userId=user_id, maxResults=max_results, q=query or '').execute()\<close>
  and \<open>get_message\<close>:
  \<^verbatim>\<open>service.users().messages().get(userId=user_id, id=message_id).execute()\<close>
\<close>

definition list_messages ::
  "service \<Rightarrow> world \<Rightarrow> string \<Rightarrow> int \<Rightarrow> string option \<Rightarrow> (exn + msg_info list) \<times> world" where
  "list_messages svc w user_id max_results query =
     (let q = (if truthy query then the query else [])
      in (messages_list svc user_id max_results q,
          w\<lparr>requests := requests w @ [ListRequest user_id max_results q]\<rparr>))"

definition get_message ::
  "service \<Rightarrow> world \<Rightarrow> string \<Rightarrow> string \<Rightarrow> (exn + message) \<times> world" where
  "get_message svc w message_id user_id =
     (messages_get svc user_id message_id,
      w\<lparr>requests := requests w @ [GetRequest user_id message_id]\<rparr>)"


section \<open>The Python library seen from the server\<close>

text \<open>
  Four library computations are taken as they are, each a function that returns a
  value or raises: \<^verbatim>\<open>base64.urlsafe_b64decode(data).decode()\<close>,
  \<^verbatim>\<open>email.utils.parsedate_to_datetime(date_str)\<close>, \<^verbatim>\<open>dt.astimezone()\<close> (conversion to
  the local time zone of the process) and \<^verbatim>\<open>dt.strftime('%Y-%m-%d %I:%M %p %Z')\<close>.
\<close>

record datetime =
  dt_year :: int
  dt_month :: int
  dt_day :: int
  dt_hour :: int
  dt_minute :: int
  dt_second :: int
  dt_utcoffset :: "int option"
  dt_tzname :: "string option"

record pylib =
  b64decode_str :: "string \<Rightarrow> exn + string"
  parsedate_to_datetime :: "string \<Rightarrow> exn + datetime"
  astimezone :: "datetime \<Rightarrow> exn + datetime"
  strftime :: "datetime \<Rightarrow> exn + string"


section \<open>helpers.py\<close>

subsection \<open>sanitize\_filename\<close>

text \<open>
  \<^verbatim>\<open>safe_filename = ''.join(c if c.isalnum() or c in '.-_ ' else '_' for c in filename)\<close>
  \<^verbatim>\<open>if not safe_filename or safe_filename.startswith('.'): safe_filename = 'file_' + safe_filename\<close>
  \<^verbatim>\<open>if len(safe_filename) > 200: safe_filename = safe_filename[:200]\<close>
\<close>

definition allowed_char :: "char \<Rightarrow> bool" where
  "allowed_char c = (isalnum c \<or> c \<in> set ''.-_ '')"

definition safe_char :: "char \<Rightarrow> char" where
  "safe_char c = (if allowed_char c then c else CHR ''_'')"

definition sanitize_filename :: "string \<Rightarrow> string" where
  "sanitize_filename filename =
     (let safe_filename = map safe_char filename;
          safe_filename =
            (if safe_filename = [] \<or> startswith ''.'' safe_filename
             then ''file_'' @ safe_filename else safe_filename);
          safe_filename =
            (if length safe_filename > 200 then take 200 safe_filename else safe_filename)
      in safe_filename)"


subsection \<open>validate\_date\_format\<close>

text \<open>
  \<^verbatim>\<open>if not date_str: return True\<close>
  \<^verbatim>\<open>if not re.match(r'^\d{4}/\d{2}/\d{2}$', date_str): return False\<close>
  \<^verbatim>\<open>try: datetime.strptime(date_str, '%Y/%m/%d'); return True\<close>
  \<^verbatim>\<open>except ValueError: return False\<close>

  The regular expression and \<open>strptime\<close> belong to the Python library; both are
  modelled here. On the characters below 256 the class \<open>\d\<close> is the ten ASCII digits.
  \<open>eat_digits n\<close> is \<open>\d{n}\<close> and \<open>eat_char\<close> a literal character; each returns what
  is left of the input. In Python \<open>$\<close> matches at the end of the string and also just
  before a final newline.
\<close>

definition isdigit :: "char \<Rightarrow> bool" where
  "isdigit c = (48 \<le> (of_char c :: nat) \<and> (of_char c :: nat) \<le> 57)"

definition digit_val :: "char \<Rightarrow> nat" where
  "digit_val c = of_char c - 48"

text \<open>\<open>int(s)\<close> for a string of digits, blanks ignored.\<close>

definition int_of_digits :: "string \<Rightarrow> nat" where
  "int_of_digits s = foldl (\<lambda>a c. 10 * a + digit_val c) 0 (filter isdigit s)"

fun eat_digits :: "nat \<Rightarrow> string \<Rightarrow> (string \<times> string) option" where
  "eat_digits 0 s = Some ([], s)"
| "eat_digits (Suc n) [] = None"
| "eat_digits (Suc n) (c # s) =
     (if isdigit c
      then (case eat_digits n s of None \<Rightarrow> None | Some (ds, r) \<Rightarrow> Some (c # ds, r))
      else None)"

fun eat_char :: "char \<Rightarrow> string \<Rightarrow> string option" where
  "eat_char x [] = None"
| "eat_char x (c # s) = (if c = x then Some s else None)"

definition re_match_date :: "string \<Rightarrow> bool" where
  "re_match_date s =
     (case eat_digits 4 s of None \<Rightarrow> False | Some (y, r1) \<Rightarrow>
     (case eat_char CHR ''/'' r1 of None \<Rightarrow> False | Some r2 \<Rightarrow>
     (case eat_digits 2 r2 of None \<Rightarrow> False | Some (m, r3) \<Rightarrow>
     (case eat_char CHR ''/'' r3 of None \<Rightarrow> False | Some r4 \<Rightarrow>
     (case eat_digits 2 r4 of None \<Rightarrow> False | Some (d, r5) \<Rightarrow>
        r5 = [] \<or> r5 = [CHR 0x0A])))))"

text \<open>
  \<open>strptime\<close> compiles the format \<open>%Y/%m/%d\<close> to the regular expression
  \<^verbatim>\<open>(?P<Y>\d\d\d\d)/(?P<m>1[0-2]|0[1-9]|[1-9])/(?P<d>3[0-1]|[1-2]\d|0[1-9]|[1-9]| [1-9])\<close>,
  matches it at the start of the input, raises \<open>ValueError\<close> when it does not match or
  when input is left over, converts the three groups with \<open>int\<close> and builds the date,
  which raises \<open>ValueError\<close> for year 0 and for a day the month does not have.
  \<open>month_alts\<close> and \<open>day_alts\<close> list the ways the month and the day group can match, in
  the order the alternatives are tried (matched text, rest of the input);
  \<open>strptime_regex\<close> is the first way that lets the whole expression match. The messages
  of the exceptions are abridged.
\<close>

definition month_alts :: "string \<Rightarrow> (string \<times> string) list" where
  "month_alts s =
     (case s of
        c1 # c2 # r \<Rightarrow>
          (if c1 = CHR ''1'' \<and> c2 \<in> set ''012'' then [([c1, c2], r)] else []) @
          (if c1 = CHR ''0'' \<and> c2 \<in> set ''123456789'' then [([c1, c2], r)] else [])
      | _ \<Rightarrow> []) @
     (case s of
        c1 # r \<Rightarrow> (if c1 \<in> set ''123456789'' then [([c1], r)] else [])
      | [] \<Rightarrow> [])"

definition day_alts :: "string \<Rightarrow> (string \<times> string) list" where
  "day_alts s =
     (case s of
        c1 # c2 # r \<Rightarrow>
          (if c1 = CHR ''3'' \<and> c2 \<in> set ''01'' then [([c1, c2], r)] else []) @
          (if c1 \<in> set ''12'' \<and> isdigit c2 then [([c1, c2], r)] else []) @
          (if c1 = CHR ''0'' \<and> c2 \<in> set ''123456789'' then [([c1, c2], r)] else [])
      | _ \<Rightarrow> []) @
     (case s of
        c1 # r \<Rightarrow> (if c1 \<in> set ''123456789'' then [([c1], r)] else [])
      | [] \<Rightarrow> []) @
     (case s of
        c1 # c2 # r \<Rightarrow>
          (if c1 = CHR '' '' \<and> c2 \<in> set ''123456789'' then [([c1, c2], r)] else [])
      | _ \<Rightarrow> [])"

definition strptime_regex :: "string \<Rightarrow> (string \<times> string \<times> string \<times> string) option" where
  "strptime_regex s =
     (case eat_digits 4 s of None \<Rightarrow> None | Some (y, r1) \<Rightarrow>
     (case eat_char CHR ''/'' r1 of None \<Rightarrow> None | Some r2 \<Rightarrow>
     (case concat (map (\<lambda>(m, r3).
               (case eat_char CHR ''/'' r3 of None \<Rightarrow> []
                | Some r4 \<Rightarrow> map (\<lambda>(d, r5). (y, m, d, r5)) (day_alts r4)))
             (month_alts r2)) of
        [] \<Rightarrow> None
      | found # _ \<Rightarrow> Some found)))"

definition is_leap :: "nat \<Rightarrow> bool" where
  "is_leap y = (y mod 4 = 0 \<and> (y mod 400 = 0 \<or> y mod 100 \<noteq> 0))"

definition days_in_month :: "nat \<Rightarrow> nat \<Rightarrow> nat" where
  "days_in_month y m =
     (if m = 2 then (if is_leap y then 29 else 28)
      else if m = 4 \<or> m = 6 \<or> m = 9 \<or> m = 11 then 30 else 31)"

definition strptime :: "string \<Rightarrow> exn + (nat \<times> nat \<times> nat)" where
  "strptime s =
     (case strptime_regex s of
        None \<Rightarrow> Inl (ValueError ''time data does not match format'')
      | Some (y, m, d, rest) \<Rightarrow>
          if rest \<noteq> [] then Inl (ValueError ''unconverted data remains'')
          else
            let year = int_of_digits y; month = int_of_digits m; day = int_of_digits d
            in if year < 1 then Inl (ValueError ''year 0 is out of range'')
               else if month < 1 \<or> 12 < month then Inl (ValueError ''month must be in 1..12'')
               else if day < 1 \<or> days_in_month year month < day
                 then Inl (ValueError ''day is out of range for month'')
               else Inr (year, month, day))"

definition validate_date_format :: "string option \<Rightarrow> bool" where
  "validate_date_format date_str =
     (case date_str of
        None \<Rightarrow> True
      | Some s \<Rightarrow>
          if s = [] then True
          else if \<not> re_match_date s then False
          else (case strptime s of Inr _ \<Rightarrow> True | Inl _ \<Rightarrow> False))"




subsection \<open>check\_message\_has\_attachments\<close>

text \<open>
  \<^verbatim>\<open>if 'parts' in payload:\<close>
  \<^verbatim>\<open>    for part in payload['parts']:\<close>
  \<^verbatim>\<open>        if part.get('filename'): return True\<close>
  \<^verbatim>\<open>return False\<close>
\<close>

fun scan_filenames :: "part list \<Rightarrow> bool" where
  "scan_filenames [] = False"
| "scan_filenames (part # rest) = (if truthy (p_filename part) then True else scan_filenames rest)"

definition check_message_has_attachments :: "message \<Rightarrow> bool" where
  "check_message_has_attachments message =
     (case p_parts (m_payload message) of
        Some ps \<Rightarrow> scan_filenames ps
      | None \<Rightarrow> False)"


subsection \<open>get\_gmail\_web\_url\<close>

text \<open>\<^verbatim>\<open>return f'https://mail.google.com/mail/u/{account_index}/#all/{message_id}'\<close>\<close>

definition get_gmail_web_url :: "string \<Rightarrow> int \<Rightarrow> string" where
  "get_gmail_web_url message_id account_index =
     ''https://mail.google.com/mail/u/'' @ show_int account_index @ ''/#all/'' @ message_id"

subsection \<open>format\_email\_date\<close>

text \<open>
  \<^verbatim>\<open>if not date_str or date_str == 'Unknown Date': return 'Unknown Date'\<close>
  \<^verbatim>\<open>try:\<close>
  \<^verbatim>\<open>    dt = parsedate_to_datetime(date_str)\<close>
  \<^verbatim>\<open>    local_dt = dt.astimezone()\<close>
  \<^verbatim>\<open>    formatted = local_dt.strftime('%Y-%m-%d %I:%M %p %Z')\<close>
  \<^verbatim>\<open>    return formatted\<close>
  \<^verbatim>\<open>except (ValueError, TypeError, AttributeError): return date_str\<close>

  \<open>caught\<close> is the \<open>except\<close> clause; \<open>local_rendering\<close> is the body of the \<open>try\<close>. An
  exception of another kind leaves the function.
\<close>

fun caught :: "exn \<Rightarrow> bool" where
  "caught (ValueError m) = True"
| "caught (TypeError m) = True"
| "caught (AttributeError m) = True"
| "caught (ToolError m) = False"
| "caught (OtherError m) = False"

definition local_rendering :: "pylib \<Rightarrow> string \<Rightarrow> exn + string" where
  "local_rendering L date_str =
     bind_exn (parsedate_to_datetime L date_str) (\<lambda>dt.
     bind_exn (astimezone L dt) (\<lambda>local_dt.
     strftime L local_dt))"

definition format_email_date :: "pylib \<Rightarrow> string \<Rightarrow> exn + string" where
  "format_email_date L date_str =
     (if date_str = [] \<or> date_str = ''Unknown Date'' then Inr ''Unknown Date''
      else
        (case local_rendering L date_str of
           Inr formatted \<Rightarrow> Inr formatted
         | Inl e \<Rightarrow> if caught e then Inr date_str else Inl e))"

subsection \<open>get\_headers\_dict\<close>

text \<open>
  \<^verbatim>\<open>headers = {}\<close>
  \<^verbatim>\<open>for header in message['payload']['headers']: headers[header['name']] = header['value']\<close>
\<close>

fun headers_loop :: "(string \<times> string) list \<Rightarrow> (string \<rightharpoonup> string) \<Rightarrow> (string \<rightharpoonup> string)" where
  "headers_loop [] headers = headers"
| "headers_loop ((name, val) # rest) headers = headers_loop rest (headers(name \<mapsto> val))"

definition get_headers_dict :: "message \<Rightarrow> (string \<rightharpoonup> string)" where
  "get_headers_dict message = headers_loop (p_headers (m_payload message)) Map.empty"

subsection \<open>build\_email\_metadata\<close>

text \<open>The model \<open>EmailMetadata\<close> of models.py; the field names carry the prefix \<open>md_\<close>.\<close>

record email_metadata =
  md_id :: string
  md_thread_id :: string
  md_subject :: string
  md_from_addr :: string
  md_to_addr :: string
  md_date :: string
  md_labels :: "string list"
  md_has_attachments :: bool
  md_web_url :: string

definition build_email_metadata :: "pylib \<Rightarrow> message \<Rightarrow> string \<Rightarrow> exn + email_metadata" where
  "build_email_metadata L message message_id =
     (let headers = get_headers_dict message in
      bind_exn (format_email_date L (dict_get headers ''Date'' ''Unknown Date'')) (\<lambda>date.
        Inr \<lparr>md_id = message_id,
             md_thread_id = (case m_threadId message of None \<Rightarrow> [] | Some t \<Rightarrow> t),
             md_subject = dict_get headers ''Subject'' ''No Subject'',
             md_from_addr = dict_get headers ''From'' ''Unknown'',
             md_to_addr = dict_get headers ''To'' ''Unknown'',
             md_date = date,
             md_labels = (case m_labelIds message of None \<Rightarrow> [] | Some ls \<Rightarrow> ls),
             md_has_attachments = check_message_has_attachments message,
             md_web_url = get_gmail_web_url message_id 0\<rparr>))"

subsection \<open>format\_email\_as\_markdown\<close>

text \<open>
  The f-string of the function: a title with the subject, one line per metadata field,
  a rule, the heading \<open>## Body\<close> and the body.
\<close>

definition format_email_as_markdown :: "pylib \<Rightarrow> message \<Rightarrow> string \<Rightarrow> string \<Rightarrow> exn + string" where
  "format_email_as_markdown L message message_id body =
     bind_exn (build_email_metadata L message message_id) (\<lambda>metadata.
       Inr (''# Email: '' @ md_subject metadata @ nl
            @ nl
            @ ''**Message ID:** '' @ md_id metadata @ nl
            @ ''**Thread ID:** '' @ md_thread_id metadata @ nl
            @ ''**From:** '' @ md_from_addr metadata @ nl
            @ ''**To:** '' @ md_to_addr metadata @ nl
            @ ''**Date:** '' @ md_date metadata @ nl
            @ ''**Labels:** '' @ join '', '' (md_labels metadata) @ nl
            @ ''**Has Attachments:** '' @ show_bool (md_has_attachments metadata) @ nl
            @ ''**Web URL:** '' @ md_web_url metadata @ nl
            @ nl
            @ ''---'' @ nl
            @ nl
            @ ''## Body'' @ nl
            @ nl
            @ body @ nl))"


section \<open>gmail.py\<close>

subsection \<open>search\_messages\<close>

text \<open>
  The keyword arguments of \<open>search_messages\<close>, each optional with default \<open>None\<close>;
  the field names carry the prefix \<open>f_\<close>.
\<close>

record search_filter =
  f_read_status :: "string option"
  f_labels :: "string list option"
  f_from_email :: "string option"
  f_to_email :: "string option"
  f_subject :: "string option"
  f_after :: "string option"
  f_before :: "string option"
  f_has_attachment :: "bool option"
  f_is_starred :: "bool option"
  f_is_important :: "bool option"
  f_in_trash :: "bool option"

text \<open>
  \<^verbatim>\<open>if x: query_parts.append(f'key:{x}')\<close> for an optional string, and
  \<^verbatim>\<open>if flag is not None and flag: query_parts.append('clause')\<close> for an optional boolean.
\<close>

definition append_str :: "string \<Rightarrow> string option \<Rightarrow> string list \<Rightarrow> string list" where
  "append_str key x query_parts =
     (case x of
        None \<Rightarrow> query_parts
      | Some v \<Rightarrow> if v \<noteq> [] then query_parts @ [key @ v] else query_parts)"

definition append_flag :: "string \<Rightarrow> bool option \<Rightarrow> string list \<Rightarrow> string list" where
  "append_flag clause flag query_parts =
     (case flag of
        None \<Rightarrow> query_parts
      | Some b \<Rightarrow> if b then query_parts @ [clause] else query_parts)"

text \<open>\<^verbatim>\<open>for label in labels: query_parts.append(f'label:{label}')\<close>\<close>

fun append_labels :: "string list \<Rightarrow> string list \<Rightarrow> string list" where
  "append_labels [] query_parts = query_parts"
| "append_labels (label # ls) query_parts = append_labels ls (query_parts @ [''label:'' @ label])"

text \<open>
  The list \<open>query_parts\<close> as \<open>search_messages\<close> builds it, statement by statement, and
  the query \<^verbatim>\<open>' '.join(query_parts)\<close> it hands to \<open>list_messages\<close>.
\<close>

definition query_parts :: "search_filter \<Rightarrow> string list" where
  "query_parts f =
     (let qp = [];
          qp = (case f_read_status f of
                  None \<Rightarrow> qp
                | Some rs \<Rightarrow>
                    if rs = ''read'' then qp @ [''is:read'']
                    else if rs = ''unread'' then qp @ [''is:unread'']
                    else qp);
          qp = (case f_labels f of
                  None \<Rightarrow> qp
                | Some ls \<Rightarrow> if ls \<noteq> [] then append_labels ls qp else qp);
          qp = append_str ''from:'' (f_from_email f) qp;
          qp = append_str ''to:'' (f_to_email f) qp;
          qp = append_str ''subject:'' (f_subject f) qp;
          qp = append_str ''after:'' (f_after f) qp;
          qp = append_str ''before:'' (f_before f) qp;
          qp = append_flag ''has:attachment'' (f_has_attachment f) qp;
          qp = append_flag ''is:starred'' (f_is_starred f) qp;
          qp = append_flag ''is:important'' (f_is_important f) qp;
          qp = append_flag ''in:trash'' (f_in_trash f) qp
      in qp)"

definition search_query :: "search_filter \<Rightarrow> string" where
  "search_query f = join '' '' (query_parts f)"

definition search_messages ::
  "service \<Rightarrow> world \<Rightarrow> string \<Rightarrow> int \<Rightarrow> search_filter \<Rightarrow> (exn + msg_info list) \<times> world" where
  "search_messages svc w user_id max_results f =
     list_messages svc w user_id max_results (Some (search_query f))"









subsection \<open>parse\_message\_body\<close>

text \<open>
  The helper \<open>get_text_part\<close> walks a list of parts from left to right and adds to its
  text the decoded data of a part of type \<open>text/plain\<close>, or else the text of the part's
  own list of parts:
  \<^verbatim>\<open>if part['mimeType'] == 'text/plain':\<close>
  \<^verbatim>\<open>    if 'data' in part['body']: text += base64.urlsafe_b64decode(part['body']['data']).decode()\<close>
  \<^verbatim>\<open>elif 'parts' in part: text += get_text_part(part['parts'])\<close>
  An exception of the decoding ends the walk.
\<close>

function get_text_part :: "pylib \<Rightarrow> part list \<Rightarrow> exn + string" where
  "get_text_part L [] = Inr []"
| "get_text_part L (part # rest) =
     bind_exn
       (if p_mimeType part = ''text/plain''
        then (case b_data (p_body part) of Some d \<Rightarrow> b64decode_str L d | None \<Rightarrow> Inr [])
        else (case p_parts part of Some ps \<Rightarrow> get_text_part L ps | None \<Rightarrow> Inr []))
       (\<lambda>t. bind_exn (get_text_part L rest) (\<lambda>text. Inr (t @ text)))"
  by pat_completeness auto
termination
proof (relation "measure (\<lambda>(L, ps). size_list size ps)")
  show "wf (measure (\<lambda>(L, ps). size_list size ps))"
    by simp
next
  fix L :: pylib and part :: part and rest ps
  assume "p_parts part = Some ps"
  then show "((L, ps), (L, part # rest)) \<in> measure (\<lambda>(L, ps). size_list size ps)"
    by (cases part) simp
next
  fix L :: pylib and part :: part and rest :: "part list" and t :: string
  show "((L, rest), (L, part # rest)) \<in> measure (\<lambda>(L, ps). size_list size ps)"
    by simp
qed

text \<open>
  \<^verbatim>\<open>if 'parts' in message['payload']: return get_text_part(message['payload']['parts'])\<close>
  \<^verbatim>\<open>else:\<close>
  \<^verbatim>\<open>    if 'data' in message['payload']['body']: return base64.urlsafe_b64decode(data).decode()\<close>
  \<^verbatim>\<open>    return ''\<close>
\<close>

definition parse_message_body :: "pylib \<Rightarrow> message \<Rightarrow> exn + string" where
  "parse_message_body L message =
     (case p_parts (m_payload message) of
        Some ps \<Rightarrow> get_text_part L ps
      | None \<Rightarrow>
          (case b_data (p_body (m_payload message)) of
             Some d \<Rightarrow> b64decode_str L d
           | None \<Rightarrow> Inr []))"

text \<open>
  The words of the specification, for comparison with the code. A leaf is a part
  without a list of parts. \<open>plain_leaves\<close> lists, depth first and from left to right,
  the leaves of type \<open>text/plain\<close>; \<open>decode_all\<close> decodes the data of each in turn (a
  leaf without data gives the empty text) and concatenates. \<open>spec_body\<close> is the body
  the specification describes: the text of the \<open>text/plain\<close> leaves of the part tree,
  a message without a part tree being one leaf under the same rule.
\<close>

function plain_leaves :: "part list \<Rightarrow> part list" where
  "plain_leaves [] = []"
| "plain_leaves (part # rest) =
     (case p_parts part of
        None \<Rightarrow> (if p_mimeType part = ''text/plain'' then [part] else [])
      | Some ps \<Rightarrow> plain_leaves ps)
     @ plain_leaves rest"
  by pat_completeness auto
termination
proof (relation "measure (size_list size)")
  show "wf (measure (size_list (size :: part \<Rightarrow> nat)))"
    by simp
next
  fix part :: part and rest ps
  assume "p_parts part = Some ps"
  then show "(ps, part # rest) \<in> measure (size_list size)"
    by (cases part) simp
next
  fix part :: part and rest :: "part list"
  show "(rest, part # rest) \<in> measure (size_list size)"
    by simp
qed

fun decode_all :: "pylib \<Rightarrow> part list \<Rightarrow> exn + string" where
  "decode_all L [] = Inr []"
| "decode_all L (leaf # leaves) =
     bind_exn (case b_data (p_body leaf) of Some d \<Rightarrow> b64decode_str L d | None \<Rightarrow> Inr [])
       (\<lambda>t. bind_exn (decode_all L leaves) (\<lambda>text. Inr (t @ text)))"

definition spec_body :: "pylib \<Rightarrow> message \<Rightarrow> exn + string" where
  "spec_body L message =
     (case p_parts (m_payload message) of
        Some ps \<Rightarrow> decode_all L (plain_leaves ps)
      | None \<Rightarrow> decode_all L (plain_leaves [m_payload message]))"

text \<open>
  In a tree of MIME parts only a multipart part has parts below it:
  \<open>plain_are_leaves\<close> says that no part of type \<open>text/plain\<close> in the forest has a list
  of parts.
\<close>

function plain_are_leaves :: "part list \<Rightarrow> bool" where
  "plain_are_leaves [] = True"
| "plain_are_leaves (part # rest) =
     ((case p_parts part of
         None \<Rightarrow> True
       | Some ps \<Rightarrow> p_mimeType part \<noteq> ''text/plain'' \<and> plain_are_leaves ps)
      \<and> plain_are_leaves rest)"
  by pat_completeness auto
termination
proof (relation "measure (size_list size)")
  show "wf (measure (size_list (size :: part \<Rightarrow> nat)))"
    by simp
next
  fix part :: part and rest ps
  assume "p_parts part = Some ps"
  then show "(ps, part # rest) \<in> measure (size_list size)"
    by (cases part) simp
next
  fix part :: part and rest :: "part list"
  show "(rest, part # rest) \<in> measure (size_list size)"
    by simp
qed


subsection \<open>list\_message\_attachments\<close>

record attachment =
  a_filename :: string
  a_attachment_id :: string
  a_mime_type :: string
  a_size_bytes :: int

text \<open>
  The dictionary appended for a part that has a non-empty filename and a non-empty
  attachment id:
  \<^verbatim>\<open>filename = part.get('filename')\<close>
  \<^verbatim>\<open>if filename and part.get('body', {}).get('attachmentId'): attachments.append({...})\<close>
\<close>

definition is_attachment :: "part \<Rightarrow> bool" where
  "is_attachment part = (truthy (p_filename part) \<and> truthy (b_attachmentId (p_body part)))"

definition attachment_of :: "part \<Rightarrow> attachment" where
  "attachment_of part =
     \<lparr>a_filename = the (p_filename part),
      a_attachment_id = the (b_attachmentId (p_body part)),
      a_mime_type = p_mimeType part,
      a_size_bytes = (case b_size (p_body part) of None \<Rightarrow> 0 | Some n \<Rightarrow> n)\<rparr>"

text \<open>
  \<open>_find_attachments\<close>: for each part in turn, append the part when it is an
  attachment, then recurse into its list of parts.
\<close>

function find_attachments :: "part list \<Rightarrow> attachment list" where
  "find_attachments [] = []"
| "find_attachments (part # rest) =
     (if is_attachment part then [attachment_of part] else [])
     @ (case p_parts part of Some ps \<Rightarrow> find_attachments ps | None \<Rightarrow> [])
     @ find_attachments rest"
  by pat_completeness auto
termination
proof (relation "measure (size_list size)")
  show "wf (measure (size_list (size :: part \<Rightarrow> nat)))"
    by simp
next
  fix part :: part and rest ps
  assume "p_parts part = Some ps"
  then show "(ps, part # rest) \<in> measure (size_list size)"
    by (cases part) simp
next
  fix part :: part and rest :: "part list"
  show "(rest, part # rest) \<in> measure (size_list size)"
    by simp
qed

text \<open>
  \<^verbatim>\<open>message = get_message(service, message_id, user_id)\<close>
  \<^verbatim>\<open>if 'parts' in payload: _find_attachments(payload['parts'])\<close>
  \<^verbatim>\<open>elif payload.get('filename') and payload.get('body', {}).get('attachmentId'): attachments.append({...})\<close>
\<close>

definition list_message_attachments ::
  "service \<Rightarrow> world \<Rightarrow> string \<Rightarrow> string \<Rightarrow> (exn + attachment list) \<times> world" where
  "list_message_attachments svc w message_id user_id =
     (case get_message svc w message_id user_id of
        (Inl e, w') \<Rightarrow> (Inl e, w')
      | (Inr message, w') \<Rightarrow>
          (Inr (case p_parts (m_payload message) of
                  Some ps \<Rightarrow> find_attachments ps
                | None \<Rightarrow>
                    if is_attachment (m_payload message)
                    then [attachment_of (m_payload message)] else []),
           w'))"

text \<open>
  For the statement of the claim: every part of a forest, a part before the parts
  below it, and the parts strictly below the top level.
\<close>

function all_parts :: "part list \<Rightarrow> part list" where
  "all_parts [] = []"
| "all_parts (part # rest) =
     part # (case p_parts part of Some ps \<Rightarrow> all_parts ps | None \<Rightarrow> []) @ all_parts rest"
  by pat_completeness auto
termination
proof (relation "measure (size_list size)")
  show "wf (measure (size_list (size :: part \<Rightarrow> nat)))"
    by simp
next
  fix part :: part and rest ps
  assume "p_parts part = Some ps"
  then show "(ps, part # rest) \<in> measure (size_list size)"
    by (cases part) simp
next
  fix part :: part and rest :: "part list"
  show "(rest, part # rest) \<in> measure (size_list size)"
    by simp
qed

definition nested_parts :: "part list \<Rightarrow> part list" where
  "nested_parts ps =
     concat (map (\<lambda>part. case p_parts part of Some qs \<Rightarrow> all_parts qs | None \<Rightarrow> []) ps)"

definition has_filename :: "part \<Rightarrow> bool" where
  "has_filename part = truthy (p_filename part)"


section \<open>server.py\<close>

text \<open>
  The settings the tools read (\<open>settings.user_id\<close>) and the export directory created
  at start-up. Logging is left out.
\<close>

record config =
  cfg_user_id :: string
  cfg_export_dir :: string

text \<open>
  The parameters of the tool \<open>search_emails\<close> (field names with the prefix \<open>arg_\<close>) and
  the model \<open>SearchResult\<close> of models.py (prefix \<open>sr_\<close>).
\<close>

record search_args =
  arg_from_email :: "string option"
  arg_to_email :: "string option"
  arg_subject :: "string option"
  arg_has_attachment :: bool
  arg_read_status :: "string option"
  arg_after_date :: "string option"
  arg_before_date :: "string option"
  arg_label :: "string option"
  arg_gmail_query :: "string option"
  arg_max_results :: int

record search_result =
  sr_path :: string
  sr_size_bytes :: int
  sr_match_count :: int
  sr_query :: string
  sr_metadata_list :: "email_metadata list"

abbreviation quote :: string where
  "quote \<equiv> [CHR 0x27]"

text \<open>
  \<^verbatim>\<open>explicit_params = [from_email, to_email, subject, has_attachment, read_status, after_date, before_date, label]\<close>
  \<^verbatim>\<open>any(param is not None and param is not False for param in explicit_params)\<close>
\<close>

definition explicit_params_given :: "search_args \<Rightarrow> bool" where
  "explicit_params_given a =
     (arg_has_attachment a \<or> arg_from_email a \<noteq> None \<or> arg_to_email a \<noteq> None
      \<or> arg_subject a \<noteq> None \<or> arg_read_status a \<noteq> None \<or> arg_after_date a \<noteq> None
      \<or> arg_before_date a \<noteq> None \<or> arg_label a \<noteq> None)"

text \<open>
  The keyword arguments of the call of \<open>search_messages\<close>:
  \<^verbatim>\<open>from_email=from_email, to_email=to_email, subject=subject, has_attachment=has_attachment,\<close>
  \<^verbatim>\<open>read_status=read_status, after=after_date, before=before_date, labels=[label] if label else None\<close>
\<close>

definition filter_of_args :: "search_args \<Rightarrow> search_filter" where
  "filter_of_args a =
     \<lparr>f_read_status = arg_read_status a,
      f_labels = (if truthy (arg_label a) then Some [the (arg_label a)] else None),
      f_from_email = arg_from_email a,
      f_to_email = arg_to_email a,
      f_subject = arg_subject a,
      f_after = arg_after_date a,
      f_before = arg_before_date a,
      f_has_attachment = Some (arg_has_attachment a),
      f_is_starred = None, f_is_important = None, f_in_trash = None\<rparr>"

text \<open>
  The query string of the result on the structured path:
  \<^verbatim>\<open>if from_email: query_parts.append(f'from:{from_email}')\<close>, the same for \<open>to_email\<close> and
  \<open>subject\<close>, then
  \<^verbatim>\<open>query_str = ' '.join(query_parts) if query_parts else 'all messages'\<close>
\<close>

definition result_query_str :: "search_args \<Rightarrow> string" where
  "result_query_str a =
     (let query_parts = [];
          query_parts = append_str ''from:'' (arg_from_email a) query_parts;
          query_parts = append_str ''to:'' (arg_to_email a) query_parts;
          query_parts = append_str ''subject:'' (arg_subject a) query_parts
      in if query_parts \<noteq> [] then join '' '' query_parts else ''all messages'')"

text \<open>
  The date checks and the choice between the raw query and the explicit parameters;
  the value is the list of matches with the query string of the result.
\<close>

definition search_listing ::
  "service \<Rightarrow> config \<Rightarrow> world \<Rightarrow> search_args \<Rightarrow> (exn + msg_info list \<times> string) \<times> world" where
  "search_listing svc cfg w a =
     (if truthy (arg_after_date a) \<and> \<not> validate_date_format (arg_after_date a)
      then (Inl (ToolError (''after_date '' @ quote @ the (arg_after_date a) @ quote
                            @ '' is not in the required format YYYY/MM/DD'')), w)
      else if truthy (arg_before_date a) \<and> \<not> validate_date_format (arg_before_date a)
      then (Inl (ToolError (''before_date '' @ quote @ the (arg_before_date a) @ quote
                            @ '' is not in the required format YYYY/MM/DD'')), w)
      else if truthy (arg_gmail_query a)
      then
        (if explicit_params_given a
         then (Inl (ToolError (''Cannot use both explicit parameters and gmail_query together. ''
                               @ ''Please use either explicit parameters OR gmail_query, not both.'')), w)
         else
           (case list_messages svc w (cfg_user_id cfg) (arg_max_results a) (arg_gmail_query a) of
              (Inl e, w') \<Rightarrow> (Inl e, w')
            | (Inr messages, w') \<Rightarrow> (Inr (messages, the (arg_gmail_query a)), w')))
      else
        (case search_messages svc w (cfg_user_id cfg) (arg_max_results a) (filter_of_args a) of
           (Inl e, w') \<Rightarrow> (Inl e, w')
         | (Inr messages, w') \<Rightarrow> (Inr (messages, result_query_str a), w')))"

text \<open>
  The head of the document:
  \<^verbatim>\<open>markdown_content = '# Gmail Search Results\n\n'\<close>
  \<^verbatim>\<open>markdown_content += f'**Query:** {query_str}\n'\<close>
  \<^verbatim>\<open>markdown_content += f'**Results:** {len(messages)} emails\n\n'\<close>
  \<^verbatim>\<open>markdown_content += '---\n\n'\<close>
\<close>

definition search_header :: "string \<Rightarrow> nat \<Rightarrow> string" where
  "search_header query_str n =
     ''# Gmail Search Results'' @ nl @ nl
     @ ''**Query:** '' @ query_str @ nl
     @ ''**Results:** '' @ show_nat n @ '' emails'' @ nl @ nl
     @ ''---'' @ nl @ nl"

text \<open>
  The loop \<^verbatim>\<open>for i, msg_info in enumerate(messages, 1)\<close>: fetch the message, extract
  its body, build its metadata, and add a numbered subsection to the document. An
  exception of any step leaves the tool.
\<close>

fun search_loop ::
  "pylib \<Rightarrow> service \<Rightarrow> config \<Rightarrow> world \<Rightarrow> nat \<Rightarrow> msg_info list \<Rightarrow> string \<Rightarrow> email_metadata list
   \<Rightarrow> (exn + string \<times> email_metadata list) \<times> world" where
  "search_loop L svc cfg w i [] markdown_content metadata_list =
     (Inr (markdown_content, metadata_list), w)"
| "search_loop L svc cfg w i (msg_info # rest) markdown_content metadata_list =
     (case get_message svc w (info_id msg_info) (cfg_user_id cfg) of
        (Inl e, w') \<Rightarrow> (Inl e, w')
      | (Inr message, w') \<Rightarrow>
          (case parse_message_body L message of
             Inl e \<Rightarrow> (Inl e, w')
           | Inr body \<Rightarrow>
               (case build_email_metadata L message (info_id msg_info) of
                  Inl e \<Rightarrow> (Inl e, w')
                | Inr metadata \<Rightarrow>
                    (case format_email_as_markdown L message (info_id msg_info) body of
                       Inl e \<Rightarrow> (Inl e, w')
                     | Inr email_markdown \<Rightarrow>
                         search_loop L svc cfg w' (Suc i) rest
                           (markdown_content @ ''## Email '' @ show_nat i @ nl @ nl
                            @ email_markdown @ nl @ nl @ ''---'' @ nl @ nl)
                           (metadata_list @ [metadata])))))"

text \<open>
  The tool: list, render, write the document to a file of the export directory and
  return the result.
  \<^verbatim>\<open>filename = sanitize_filename(f'search_{query_str}_{len(messages)}_results.md')\<close>
  \<^verbatim>\<open>file_path = _export_dir / filename\<close>
  \<^verbatim>\<open>file_path.write_text(markdown_content, encoding='utf-8')\<close>
\<close>

definition search_emails ::
  "pylib \<Rightarrow> service \<Rightarrow> config \<Rightarrow> world \<Rightarrow> search_args \<Rightarrow> (exn + search_result) \<times> world" where
  "search_emails L svc cfg w a =
     (case search_listing svc cfg w a of
        (Inl e, w') \<Rightarrow> (Inl e, w')
      | (Inr (messages, query_str), w') \<Rightarrow>
          (case search_loop L svc cfg w' 1 messages
                  (search_header query_str (length messages)) [] of
             (Inl e, w'') \<Rightarrow> (Inl e, w'')
           | (Inr (markdown_content, metadata_list), w'') \<Rightarrow>
               (let filename = sanitize_filename
                      (''search_'' @ query_str @ ''_'' @ show_nat (length messages)
                       @ ''_results.md'');
                    file_path = cfg_export_dir cfg @ ''/'' @ filename
                in (Inr \<lparr>sr_path = file_path,
                         sr_size_bytes = int (utf8_len markdown_content),
                         sr_match_count = int (length messages),
                         sr_query = query_str,
                         sr_metadata_list = metadata_list\<rparr>,
                    w''\<lparr>files := (files w'')(file_path \<mapsto> markdown_content)\<rparr>))))"

text \<open>The parameters of a call that passes nothing.\<close>

definition no_args :: search_args where
  "no_args =
     \<lparr>arg_from_email = None, arg_to_email = None, arg_subject = None,
      arg_has_attachment = False, arg_read_status = None, arg_after_date = None,
      arg_before_date = None, arg_label = None, arg_gmail_query = None,
      arg_max_results = 10\<rparr>"


section \<open>mcp\_gmail/server.py\<close>

text \<open>
  This server imports \<open>get_headers_dict\<close>, \<open>parse_message_body\<close>, \<open>get_message\<close>,
  \<open>list_messages\<close> and \<open>search_messages\<close> from its own module \<open>mcp_gmail.gmail\<close>.
  They are parameters of the functions below, with the types of the functions of
  these names above; \<open>src_gmail\<close> is the module made of those.
\<close>

record gmail_module =
  gm_get_headers_dict :: "message \<Rightarrow> (string \<rightharpoonup> string)"
  gm_parse_message_body :: "message \<Rightarrow> exn + string"
  gm_get_message :: "service \<Rightarrow> world \<Rightarrow> string \<Rightarrow> string \<Rightarrow> (exn + message) \<times> world"
  gm_list_messages ::
    "service \<Rightarrow> world \<Rightarrow> string \<Rightarrow> int \<Rightarrow> string option \<Rightarrow> (exn + msg_info list) \<times> world"
  gm_search_messages ::
    "service \<Rightarrow> world \<Rightarrow> string \<Rightarrow> int \<Rightarrow> search_filter \<Rightarrow> (exn + msg_info list) \<times> world"

definition src_gmail :: "pylib \<Rightarrow> gmail_module" where
  "src_gmail L =
     \<lparr>gm_get_headers_dict = get_headers_dict,
      gm_parse_message_body = parse_message_body L,
      gm_get_message = get_message,
      gm_list_messages = list_messages,
      gm_search_messages = search_messages\<rparr>"

definition EMAIL_PREVIEW_LENGTH :: nat where
  "EMAIL_PREVIEW_LENGTH = 200"

definition AVAILABLE_MESSAGE_FIELDS :: "string set" where
  "AVAILABLE_MESSAGE_FIELDS =
     {''id'', ''thread_id'', ''subject'', ''from'', ''to'', ''date'', ''body_preview'', ''body'',
      ''labels'', ''has_attachments'', ''web_url''}"

definition DEFAULT_MESSAGE_FIELDS :: "string set" where
  "DEFAULT_MESSAGE_FIELDS = {''id'', ''subject'', ''from'', ''date''}"

subsection \<open>parse\_message\_fields\<close>

text \<open>
  \<^verbatim>\<open>if fields_param is None: return DEFAULT_MESSAGE_FIELDS\<close>
  \<^verbatim>\<open>if fields_param.lower() == 'all': return AVAILABLE_MESSAGE_FIELDS\<close>
  \<^verbatim>\<open>requested = set(field.strip().lower() for field in fields_param.split(',') if field.strip())\<close>
  \<^verbatim>\<open>valid_fields = requested & AVAILABLE_MESSAGE_FIELDS\<close>
  \<^verbatim>\<open>return valid_fields if valid_fields else DEFAULT_MESSAGE_FIELDS\<close>
\<close>

definition requested_names :: "string \<Rightarrow> string set" where
  "requested_names fields_param =
     set (map (\<lambda>field. lower (strip field))
            (filter (\<lambda>field. strip field \<noteq> []) (split CHR '','' fields_param)))"

definition parse_message_fields :: "string option \<Rightarrow> string set" where
  "parse_message_fields fields_param =
     (case fields_param of
        None \<Rightarrow> DEFAULT_MESSAGE_FIELDS
      | Some fp \<Rightarrow>
          if lower fp = ''all'' then AVAILABLE_MESSAGE_FIELDS
          else
            (let requested = requested_names fp;
                 valid_fields = requested \<inter> AVAILABLE_MESSAGE_FIELDS
             in if valid_fields \<noteq> {} then valid_fields else DEFAULT_MESSAGE_FIELDS))"

subsection \<open>format\_message\_with\_fields\<close>

text \<open>
  The function tests the requested fields one after the other and appends a line for
  each one present (\<^verbatim>\<open>if 'id' in fields: result_lines.append(f'Message ID: {message_id}')\<close>);
  the thread id and the labels are appended only when they are not empty; the lines
  are joined by newlines. The two last tests call \<open>parse_message_body\<close>, which may
  raise. The flag \<open>has_attachments\<close> is the scan of the immediate parts, written out in
  the function as in \<open>check_message_has_attachments\<close>.
\<close>

definition append_line_if :: "bool \<Rightarrow> string \<Rightarrow> string list \<Rightarrow> string list" where
  "append_line_if requested line result_lines =
     (if requested then result_lines @ [line] else result_lines)"

definition header_lines :: "gmail_module \<Rightarrow> message \<Rightarrow> string \<Rightarrow> string set \<Rightarrow> string list" where
  "header_lines G message message_id fields' =
     (let headers = gm_get_headers_dict G message;
          result_lines = [];
          result_lines =
            append_line_if (''id'' \<in> fields') (''Message ID: '' @ message_id) result_lines;
          thread_id = (case m_threadId message of None \<Rightarrow> [] | Some t \<Rightarrow> t);
          result_lines =
            append_line_if (''thread_id'' \<in> fields' \<and> thread_id \<noteq> [])
              (''Thread ID: '' @ thread_id) result_lines;
          result_lines =
            append_line_if (''from'' \<in> fields')
              (''From: '' @ dict_get headers ''From'' ''Unknown'') result_lines;
          result_lines =
            append_line_if (''to'' \<in> fields')
              (''To: '' @ dict_get headers ''To'' ''Unknown'') result_lines;
          result_lines =
            append_line_if (''subject'' \<in> fields')
              (''Subject: '' @ dict_get headers ''Subject'' ''No Subject'') result_lines;
          result_lines =
            append_line_if (''date'' \<in> fields')
              (''Date: '' @ dict_get headers ''Date'' ''Unknown Date'') result_lines;
          label_ids = (case m_labelIds message of None \<Rightarrow> [] | Some ls \<Rightarrow> ls);
          result_lines =
            append_line_if (''labels'' \<in> fields' \<and> label_ids \<noteq> [])
              (''Labels: '' @ join '', '' label_ids) result_lines;
          has_attachments =
            (case p_parts (m_payload message) of
               Some ps \<Rightarrow> scan_filenames ps
             | None \<Rightarrow> False);
          result_lines =
            append_line_if (''has_attachments'' \<in> fields')
              (''Has Attachments: '' @ show_bool has_attachments) result_lines;
          result_lines =
            append_line_if (''web_url'' \<in> fields')
              (''Web URL: '' @ get_gmail_web_url message_id 0) result_lines
      in result_lines)"

definition preview_line :: "string \<Rightarrow> string" where
  "preview_line body =
     (let preview = strip (replace_char CHR 0x0A CHR '' '' (take EMAIL_PREVIEW_LENGTH body));
          preview = (if length body > EMAIL_PREVIEW_LENGTH then preview @ ''...'' else preview)
      in ''Preview: '' @ preview)"

definition format_message_with_fields ::
  "gmail_module \<Rightarrow> message \<Rightarrow> string \<Rightarrow> string set \<Rightarrow> exn + string" where
  "format_message_with_fields G message message_id fields' =
     (let result_lines = header_lines G message message_id fields' in
      bind_exn
        (if ''body_preview'' \<in> fields'
         then bind_exn (gm_parse_message_body G message)
                (\<lambda>body. Inr (result_lines @ [preview_line body]))
         else Inr result_lines)
        (\<lambda>result_lines.
           bind_exn
             (if ''body'' \<in> fields'
              then bind_exn (gm_parse_message_body G message)
                     (\<lambda>body. Inr (result_lines @ [nl @ ''Body:'' @ nl @ body]))
              else Inr result_lines)
             (\<lambda>result_lines. Inr (join nl result_lines))))"

subsection \<open>get\_emails\<close>

text \<open>
  The fetching loop:
  \<^verbatim>\<open>try: message = get_message(service, msg_id, user_id=settings.user_id)\<close>
  \<^verbatim>\<open>     retrieved_emails.append((msg_id, message))\<close>
  \<^verbatim>\<open>except Exception as e: error_emails.append((msg_id, str(e)))\<close>
\<close>

fun fetch_loop ::
  "gmail_module \<Rightarrow> service \<Rightarrow> config \<Rightarrow> world \<Rightarrow> string list
   \<Rightarrow> (string \<times> message) list \<Rightarrow> (string \<times> string) list
   \<Rightarrow> (string \<times> message) list \<times> (string \<times> string) list \<times> world" where
  "fetch_loop G svc cfg w [] retrieved_emails error_emails =
     (retrieved_emails, error_emails, w)"
| "fetch_loop G svc cfg w (msg_id # rest) retrieved_emails error_emails =
     (case gm_get_message G svc w msg_id (cfg_user_id cfg) of
        (Inr message, w') \<Rightarrow>
          fetch_loop G svc cfg w' rest (retrieved_emails @ [(msg_id, message)]) error_emails
      | (Inl e, w') \<Rightarrow>
          fetch_loop G svc cfg w' rest retrieved_emails (error_emails @ [(msg_id, str_exn e)]))"

text \<open>
  The two rendering loops over \<open>enumerate(..., 1)\<close>:
  \<^verbatim>\<open>result += f'\n--- Email {i} ---\n'\<close>
  \<^verbatim>\<open>result += format_message_with_fields(message, msg_id, requested_fields)\<close>
  \<^verbatim>\<open>result += '\n'\<close>
  and
  \<^verbatim>\<open>result += f'\n--- Email {i} (ID: {msg_id}) ---\n'\<close>
  \<^verbatim>\<open>result += f'Error: {error}\n'\<close>
\<close>

fun render_retrieved ::
  "gmail_module \<Rightarrow> string set \<Rightarrow> nat \<Rightarrow> (string \<times> message) list \<Rightarrow> string \<Rightarrow> exn + string" where
  "render_retrieved G requested_fields i [] result = Inr result"
| "render_retrieved G requested_fields i ((msg_id, message) # rest) result =
     bind_exn (format_message_with_fields G message msg_id requested_fields) (\<lambda>formatted.
       render_retrieved G requested_fields (Suc i) rest
         (result @ nl @ ''--- Email '' @ show_nat i @ '' ---'' @ nl @ formatted @ nl))"

fun render_errors :: "nat \<Rightarrow> (string \<times> string) list \<Rightarrow> string \<Rightarrow> string" where
  "render_errors i [] result = result"
| "render_errors i ((msg_id, error) # rest) result =
     render_errors (Suc i) rest
       (result @ nl @ ''--- Email '' @ show_nat i @ '' (ID: '' @ msg_id @ '') ---'' @ nl
        @ ''Error: '' @ error @ nl)"

definition get_emails ::
  "gmail_module \<Rightarrow> service \<Rightarrow> config \<Rightarrow> world \<Rightarrow> string list \<Rightarrow> string option
   \<Rightarrow> (exn + string) \<times> world" where
  "get_emails G svc cfg w message_ids fields' =
     (if message_ids = [] then (Inr ''No message IDs provided.'', w)
      else
        (let requested_fields = parse_message_fields fields' in
         case fetch_loop G svc cfg w message_ids [] [] of
           (retrieved_emails, error_emails, w') \<Rightarrow>
             (bind_exn
                (render_retrieved G requested_fields 1 retrieved_emails
                   (''Retrieved '' @ show_nat (length retrieved_emails) @ '' emails:'' @ nl))
                (\<lambda>result.
                   Inr (if error_emails \<noteq> []
                        then render_errors 1 error_emails
                               (result @ nl @ nl @ ''Failed to retrieve ''
                                @ show_nat (length error_emails) @ '' emails:'' @ nl)
                        else result)),
              w')))"

subsection \<open>search\_emails\<close>

text \<open>
  The message of the error raised when the raw query comes with explicit parameters:
  the parameters that are set, one per line.
\<close>

definition params_used :: "search_args \<Rightarrow> string list" where
  "params_used a =
     (let params_used = [];
          params_used = append_str ''- from_email: '' (arg_from_email a) params_used;
          params_used = append_str ''- to_email: '' (arg_to_email a) params_used;
          params_used = append_str ''- subject: '' (arg_subject a) params_used;
          params_used =
            (if arg_has_attachment a
             then params_used @ [''- has_attachment: '' @ show_bool (arg_has_attachment a)]
             else params_used);
          params_used = append_str ''- read_status: '' (arg_read_status a) params_used;
          params_used = append_str ''- after_date: '' (arg_after_date a) params_used;
          params_used = append_str ''- before_date: '' (arg_before_date a) params_used;
          params_used = append_str ''- label: '' (arg_label a) params_used
      in params_used)"

definition both_forms_message :: "search_args \<Rightarrow> string" where
  "both_forms_message a =
     ''Cannot use both explicit parameters and gmail_query together.'' @ nl
     @ ''            '' @ nl
     @ ''You provided gmail_query: \"'' @ the (arg_gmail_query a) @ ''\"'' @ nl
     @ ''But also provided explicit parameters that will be ignored:'' @ nl
     @ join nl (params_used a) @ nl
     @ nl
     @ ''Please use either explicit parameters OR gmail_query, not both.''"

text \<open>
  The loop over the matches:
  \<^verbatim>\<open>result += f'\n{format_message_with_fields(message, msg_id, requested_fields)}\n'\<close>
\<close>

fun found_loop ::
  "gmail_module \<Rightarrow> service \<Rightarrow> config \<Rightarrow> world \<Rightarrow> string set \<Rightarrow> msg_info list \<Rightarrow> string
   \<Rightarrow> (exn + string) \<times> world" where
  "found_loop G svc cfg w requested_fields [] result = (Inr result, w)"
| "found_loop G svc cfg w requested_fields (msg_info # rest) result =
     (case gm_get_message G svc w (info_id msg_info) (cfg_user_id cfg) of
        (Inl e, w') \<Rightarrow> (Inl e, w')
      | (Inr message, w') \<Rightarrow>
          (case format_message_with_fields G message (info_id msg_info) requested_fields of
             Inl e \<Rightarrow> (Inl e, w')
           | Inr formatted \<Rightarrow>
               found_loop G svc cfg w' requested_fields rest (result @ nl @ formatted @ nl)))"

definition found_header :: "nat \<Rightarrow> string" where
  "found_header n = ''Found '' @ show_nat n @ '' messages matching criteria:'' @ nl"

definition mcp_search_emails ::
  "gmail_module \<Rightarrow> service \<Rightarrow> config \<Rightarrow> world \<Rightarrow> search_args \<Rightarrow> string option
   \<Rightarrow> (exn + string) \<times> world" where
  "mcp_search_emails G svc cfg w a fields' =
     (if truthy (arg_after_date a) \<and> \<not> validate_date_format (arg_after_date a)
      then (Inl (ToolError (''after_date '' @ quote @ the (arg_after_date a) @ quote
                            @ '' is not in the required format YYYY/MM/DD'')), w)
      else if truthy (arg_before_date a) \<and> \<not> validate_date_format (arg_before_date a)
      then (Inl (ToolError (''before_date '' @ quote @ the (arg_before_date a) @ quote
                            @ '' is not in the required format YYYY/MM/DD'')), w)
      else
        (let requested_fields = parse_message_fields fields' in
         if truthy (arg_gmail_query a)
         then
           (if explicit_params_given a then (Inl (ToolError (both_forms_message a)), w)
            else
              (case gm_list_messages G svc w (cfg_user_id cfg) (arg_max_results a)
                      (arg_gmail_query a) of
                 (Inl e, w') \<Rightarrow> (Inl e, w')
               | (Inr messages, w') \<Rightarrow>
                   found_loop G svc cfg w' requested_fields messages
                     (found_header (length messages))))
         else
           (case gm_search_messages G svc w (cfg_user_id cfg) (arg_max_results a)
                   (filter_of_args a) of
              (Inl e, w') \<Rightarrow> (Inl e, w')
            | (Inr messages, w') \<Rightarrow>
                found_loop G svc cfg w' requested_fields messages
                  (found_header (length messages)))))"


subsection \<open>The rendering and the batch as the specification words them\<close>

text \<open>
  The block a field contributes: one labelled line, nothing for a thread id or a label
  list that is empty, and for the body a blank line, the heading and the text.
\<close>

definition field_block :: "gmail_module \<Rightarrow> message \<Rightarrow> string \<Rightarrow> string \<Rightarrow> string \<Rightarrow> string list" where
  "field_block G message message_id body name =
     (if name = ''id'' then [''Message ID: '' @ message_id]
      else if name = ''thread_id'' then
        (case m_threadId message of
           None \<Rightarrow> []
         | Some t \<Rightarrow> if t = [] then [] else [''Thread ID: '' @ t])
      else if name = ''from'' then
        [''From: '' @ dict_get (gm_get_headers_dict G message) ''From'' ''Unknown'']
      else if name = ''to'' then
        [''To: '' @ dict_get (gm_get_headers_dict G message) ''To'' ''Unknown'']
      else if name = ''subject'' then
        [''Subject: '' @ dict_get (gm_get_headers_dict G message) ''Subject'' ''No Subject'']
      else if name = ''date'' then
        [''Date: '' @ dict_get (gm_get_headers_dict G message) ''Date'' ''Unknown Date'']
      else if name = ''labels'' then
        (case m_labelIds message of
           None \<Rightarrow> []
         | Some ls \<Rightarrow> if ls = [] then [] else [''Labels: '' @ join '', '' ls])
      else if name = ''has_attachments'' then
        [''Has Attachments: ''
         @ show_bool (case p_parts (m_payload message) of
                        Some ps \<Rightarrow> list_ex has_filename ps
                      | None \<Rightarrow> False)]
      else if name = ''web_url'' then [''Web URL: '' @ get_gmail_web_url message_id 0]
      else if name = ''body_preview'' then [preview_line body]
      else if name = ''body'' then [nl @ ''Body:'' @ nl @ body]
      else [])"

text \<open>The blocks of the requested fields, taken in a given order of the field names.\<close>

definition rendered_in ::
  "string list \<Rightarrow> gmail_module \<Rightarrow> message \<Rightarrow> string \<Rightarrow> string \<Rightarrow> string set \<Rightarrow> string" where
  "rendered_in order G message message_id body fields' =
     join nl (concat (map (\<lambda>name. if name \<in> fields'
                                   then field_block G message message_id body name else [])
                        order))"

text \<open>
  The order in which \<open>format_message_with_fields\<close> tests the fields, and the order in
  which the specification enumerates them.
\<close>

definition render_order :: "string list" where
  "render_order =
     [''id'', ''thread_id'', ''from'', ''to'', ''subject'', ''date'', ''labels'',
      ''has_attachments'', ''web_url'', ''body_preview'', ''body'']"

definition enumeration_order :: "string list" where
  "enumeration_order =
     [''id'', ''thread_id'', ''subject'', ''from'', ''to'', ''date'', ''body_preview'', ''body'',
      ''labels'', ''has_attachments'', ''web_url'']"

text \<open>
  The per-item operation invoked for every identifier in turn, whatever the earlier
  outcomes: the list of the outcomes in input order and the world after the last call;
  then the successes and the captured failures, each in that order.
\<close>

fun outcomes ::
  "gmail_module \<Rightarrow> service \<Rightarrow> config \<Rightarrow> world \<Rightarrow> string list
   \<Rightarrow> (string \<times> (exn + message)) list \<times> world" where
  "outcomes G svc cfg w [] = ([], w)"
| "outcomes G svc cfg w (msg_id # rest) =
     (case gm_get_message G svc w msg_id (cfg_user_id cfg) of
        (r, w') \<Rightarrow>
          (case outcomes G svc cfg w' rest of
             (rs, w'') \<Rightarrow> ((msg_id, r) # rs, w'')))"

fun successes :: "(string \<times> (exn + message)) list \<Rightarrow> (string \<times> message) list" where
  "successes [] = []"
| "successes ((msg_id, Inr message) # rs) = (msg_id, message) # successes rs"
| "successes ((msg_id, Inl e) # rs) = successes rs"

fun failures :: "(string \<times> (exn + message)) list \<Rightarrow> (string \<times> string) list" where
  "failures [] = []"
| "failures ((msg_id, Inr message) # rs) = failures rs"
| "failures ((msg_id, Inl e) # rs) = (msg_id, str_exn e) # failures rs"


section \<open>Sample values\<close>

text \<open>
  A library that agrees with Python on the entries listed and raises elsewhere: the
  base64url texts of \<open>Hello\<close>, \<open> world\<close> and \<open><p>Hi</p>\<close>, and one date of a
  process whose local time zone is UTC.
\<close>

definition sample_datetime :: datetime where
  "sample_datetime =
     \<lparr>dt_year = 2025, dt_month = 10, dt_day = 28, dt_hour = 16, dt_minute = 56,
      dt_second = 35, dt_utcoffset = Some 0, dt_tzname = Some ''UTC''\<rparr>"

definition sample_lib :: pylib where
  "sample_lib =
     \<lparr>b64decode_str = (\<lambda>d.
         if d = ''SGVsbG8='' then Inr ''Hello''
         else if d = ''IHdvcmxk'' then Inr '' world''
         else if d = ''PHA-SGk8L3A-'' then Inr ''<p>Hi</p>''
         else Inl (ValueError ''Incorrect padding'')),
      parsedate_to_datetime = (\<lambda>s.
         if s = ''Tue, 28 Oct 2025 16:56:35 +0000'' then Inr sample_datetime
         else Inl (ValueError ''Invalid date value or format'')),
      astimezone = (\<lambda>dt. Inr dt),
      strftime = (\<lambda>dt.
         if dt = sample_datetime then Inr ''2025-10-28 04:56 PM UTC''
         else Inl (ValueError ''format''))\<rparr>"

definition no_body :: body where
  "no_body = \<lparr>b_data = None, b_attachmentId = None, b_size = Some 0\<rparr>"

definition data_body :: "string \<Rightarrow> body" where
  "data_body d = \<lparr>b_data = Some d, b_attachmentId = None, b_size = Some (int (length d))\<rparr>"

text \<open>A message that is a single part of type \<open>text/html\<close>, with no part tree.\<close>

definition html_only_message :: message where
  "html_only_message =
     \<lparr>m_threadId = Some ''t1'', m_labelIds = Some [''INBOX''],
      m_payload = Part ''text/html'' (Some []) [(''Subject'', ''Hi'')]
                    (data_body ''PHA-SGk8L3A-'') None\<rparr>"

text \<open>
  A multipart message: a \<open>text/plain\<close> leaf, a \<open>text/html\<close> leaf, and a nested
  multipart part holding a second \<open>text/plain\<close> leaf.
\<close>

definition multipart_message :: message where
  "multipart_message =
     \<lparr>m_threadId = Some ''t2'', m_labelIds = None,
      m_payload = Part ''multipart/mixed'' (Some [])
          [(''From'', ''a@b.com''), (''Subject'', ''Hi''),
           (''Date'', ''Tue, 28 Oct 2025 16:56:35 +0000'')] no_body
        (Some [Part ''text/plain'' (Some []) [] (data_body ''SGVsbG8='') None,
               Part ''text/html'' (Some []) [] (data_body ''PHA-SGk8L3A-'') None,
               Part ''multipart/alternative'' (Some []) [] no_body
                 (Some [Part ''text/plain'' (Some []) [] (data_body ''IHdvcmxk'') None])])\<rparr>"

text \<open>
  Two messages whose only part with a filename lies below the top level: in the first
  it carries an attachment id, in the second its data is inline and it has none.
\<close>

definition nested_attachment_message :: message where
  "nested_attachment_message =
     \<lparr>m_threadId = Some ''t3'', m_labelIds = Some [''INBOX''],
      m_payload = Part ''multipart/mixed'' (Some []) [(''Subject'', ''Report'')] no_body
        (Some [Part ''text/plain'' (Some []) [] (data_body ''SGVsbG8='') None,
               Part ''multipart/related'' (Some []) [] no_body
                 (Some [Part ''application/pdf'' (Some ''report.pdf'') []
                          \<lparr>b_data = None, b_attachmentId = Some ''att-1'', b_size = Some 1024\<rparr>
                          None])])\<rparr>"

definition nested_inline_message :: message where
  "nested_inline_message =
     \<lparr>m_threadId = Some ''t4'', m_labelIds = Some [''INBOX''],
      m_payload = Part ''multipart/mixed'' (Some []) [(''Subject'', ''Logo'')] no_body
        (Some [Part ''text/plain'' (Some []) [] (data_body ''SGVsbG8='') None,
               Part ''multipart/related'' (Some []) [] no_body
                 (Some [Part ''text/plain'' (Some ''note.txt'') []
                          (data_body ''IHdvcmxk'') None])])\<rparr>"

text \<open>
  A provider that holds five messages and answers every listing with the first and the
  third; the fetch of an unknown id raises.
\<close>

definition sample_service :: service where
  "sample_service =
     \<lparr>messages_list = (\<lambda>user_id max_results q.
         Inr [\<lparr>info_id = ''m1'', info_threadId = ''t2''\<rparr>,
              \<lparr>info_id = ''m3'', info_threadId = ''t3''\<rparr>]),
      messages_get = (\<lambda>user_id message_id.
         if message_id = ''m1'' then Inr multipart_message
         else if message_id = ''m2'' then Inr html_only_message
         else if message_id = ''m3'' then Inr nested_attachment_message
         else if message_id = ''m4'' then Inr nested_inline_message
         else Inl (OtherError ''Requested entity was not found.''))\<rparr>"

definition world0 :: world where
  "world0 = \<lparr>requests = [], files = Map.empty\<rparr>"

text \<open>A provider whose listings are empty.\<close>

definition quiet_service :: service where
  "quiet_service =
     \<lparr>messages_list = (\<lambda>user_id max_results q. Inr []),
      messages_get = (\<lambda>user_id message_id. Inl (OtherError ''Requested entity was not found.''))\<rparr>"

definition sample_config :: config where
  "sample_config = \<lparr>cfg_user_id = ''me'', cfg_export_dir = ''/tmp/export''\<rparr>"


section \<open>Properties of sanitize\_filename\<close>

lemma allowed_safe_char: "allowed_char (safe_char c)"
  by (simp add: safe_char_def allowed_char_def)

lemma safe_char_allowed: "allowed_char c \<Longrightarrow> safe_char c = c"
  by (simp add: safe_char_def)

lemma allowed_file_prefix: "list_all allowed_char ''file_''"
  by (simp add: allowed_char_def isalnum_def)

lemma startswith_dot: "startswith ''.'' s = (\<exists>t. s = CHR ''.'' # t)"
  by (cases s) (auto simp: startswith_def)

lemma sanitize_filename_unfold:
  "sanitize_filename s =
     take 200 ((if map safe_char s = [] \<or> startswith ''.'' (map safe_char s)
                then ''file_'' else []) @ map safe_char s)"
  by (simp add: sanitize_filename_def Let_def)

lemma sanitize_filename_allowed: "list_all allowed_char (sanitize_filename s)"
proof -
  have "list_all allowed_char (map safe_char s)"
    by (simp add: list_all_iff allowed_safe_char)
  with allowed_file_prefix
  have "list_all allowed_char
          ((if map safe_char s = [] \<or> startswith ''.'' (map safe_char s)
            then ''file_'' else []) @ map safe_char s)"
    by simp
  then have "\<And>n. list_all allowed_char
          (take n ((if map safe_char s = [] \<or> startswith ''.'' (map safe_char s)
            then ''file_'' else []) @ map safe_char s))"
    unfolding list_all_iff using in_set_takeD by fast
  then show ?thesis
    unfolding sanitize_filename_unfold by blast
qed

lemma sanitize_filename_length: "length (sanitize_filename s) \<le> 200"
  by (simp add: sanitize_filename_unfold)

lemma sanitize_filename_nonempty: "sanitize_filename s \<noteq> []"
  by (auto simp: sanitize_filename_unfold)

lemma sanitize_filename_no_dot: "\<not> startswith ''.'' (sanitize_filename s)"
proof (cases "map safe_char s = [] \<or> startswith ''.'' (map safe_char s)")
  case True
  then have "sanitize_filename s = take 200 (''file_'' @ map safe_char s)"
    by (simp only: sanitize_filename_unfold if_True)
  then show ?thesis
    by (simp add: startswith_dot)
next
  case False
  then obtain c t where ct: "map safe_char s = c # t" "c \<noteq> CHR ''.''"
    by (cases "map safe_char s") (auto simp: startswith_dot)
  from False have "sanitize_filename s = take 200 (map safe_char s)"
    by (simp only: sanitize_filename_unfold if_False append_Nil)
  with ct show ?thesis
    by (simp add: startswith_dot)
qed

lemma sanitize_filename_fixed:
  assumes "list_all allowed_char t" "t \<noteq> []" "\<not> startswith ''.'' t" "length t \<le> 200"
  shows "sanitize_filename t = t"
proof -
  from assms(1) have "map safe_char t = t"
    by (induction t) (simp_all add: safe_char_allowed)
  with assms(2-4) show ?thesis
    by (simp add: sanitize_filename_unfold)
qed

text \<open>
  C5. Sanitizing is idempotent; the output never starts with a dot, consists only of
  alphanumeric characters and dot, hyphen, underscore and space, and has at most 200
  characters; it is the first 200 characters of the input with every other character
  replaced by an underscore, prefixed with \<open>file_\<close> when that replacement is empty or
  starts with a dot.
\<close>

theorem sanitize_filename_spec:
  "sanitize_filename (sanitize_filename s) = sanitize_filename s
   \<and> \<not> startswith ''.'' (sanitize_filename s)
   \<and> (\<forall>c \<in> set (sanitize_filename s). isalnum c \<or> c \<in> {CHR ''.'', CHR ''-'', CHR ''_'', CHR '' ''})
   \<and> length (sanitize_filename s) \<le> 200
   \<and> (\<forall>i < length s. map safe_char s ! i = (if isalnum (s ! i) \<or> s ! i \<in> {CHR ''.'', CHR ''-'', CHR ''_'', CHR '' ''} then s ! i else CHR ''_''))
   \<and> sanitize_filename s =
       take 200 ((if map safe_char s = [] \<or> startswith ''.'' (map safe_char s)
                  then ''file_'' else []) @ map safe_char s)"
proof -
  have idem: "sanitize_filename (sanitize_filename s) = sanitize_filename s"
    by (rule sanitize_filename_fixed)
       (rule sanitize_filename_allowed sanitize_filename_nonempty
             sanitize_filename_no_dot sanitize_filename_length)+
  have chars: "\<forall>c \<in> set (sanitize_filename s).
                 isalnum c \<or> c \<in> {CHR ''.'', CHR ''-'', CHR ''_'', CHR '' ''}"
    using sanitize_filename_allowed [of s]
    by (auto simp: list_all_iff allowed_char_def)
  have repl: "\<forall>i < length s. map safe_char s ! i =
       (if isalnum (s ! i) \<or> s ! i \<in> {CHR ''.'', CHR ''-'', CHR ''_'', CHR '' ''}
        then s ! i else CHR ''_'')"
    by (auto simp: safe_char_def allowed_char_def)
  from idem chars repl sanitize_filename_no_dot [of s] sanitize_filename_length [of s]
       sanitize_filename_unfold [of s]
  show ?thesis by blast
qed

theorem sanitize_filename_spec_witness:
  "sanitize_filename ''../a:b'' = ''file_.._a_b''
   \<and> sanitize_filename ''file_.._a_b'' = ''file_.._a_b''
   \<and> \<not> startswith ''.'' ''file_.._a_b''
   \<and> length ''file_.._a_b'' \<le> 200"
proof -
  have v: "sanitize_filename ''../a:b'' = ''file_.._a_b''"
    by (simp add: sanitize_filename_def safe_char_def allowed_char_def isalnum_def
        startswith_def)
  from sanitize_filename_spec [of "''../a:b''"] show ?thesis
    unfolding v by blast
qed


section \<open>Properties of validate\_date\_format\<close>



lemma int_of_digits_2:
  "isdigit a \<Longrightarrow> isdigit b \<Longrightarrow> int_of_digits [a, b] = 10 * digit_val a + digit_val b"
  by (simp add: int_of_digits_def)

lemma int_of_digits_4:
  "isdigit a \<Longrightarrow> isdigit b \<Longrightarrow> isdigit c \<Longrightarrow> isdigit d \<Longrightarrow>
   int_of_digits [a, b, c, d] =
     10 * (10 * (10 * digit_val a + digit_val b) + digit_val c) + digit_val d"
  by (simp add: int_of_digits_def)





















section \<open>Properties of format\_email\_date\<close>





section \<open>Properties of the query built by search\_messages\<close>









section \<open>Properties of parse\_message\_body\<close>

lemma bind_exn_Inr: "bind_exn r Inr = r" "bind_exn r (\<lambda>x. Inr x) = r"
  by (cases r; simp)+

lemma decode_all_append:
  "decode_all L (xs @ ys) =
     bind_exn (decode_all L xs) (\<lambda>a. bind_exn (decode_all L ys) (\<lambda>b. Inr (a @ b)))"
proof (induction xs)
  case Nil
  show ?case
    by (cases "decode_all L ys") simp_all
next
  case (Cons x xs)
  show ?case
  proof (cases "case b_data (p_body x) of Some d \<Rightarrow> b64decode_str L d | None \<Rightarrow> Inr []")
    case (Inl e)
    then show ?thesis by simp
  next
    case (Inr t)
    then show ?thesis
      by (cases "decode_all L xs"; cases "decode_all L ys") (simp_all add: Cons.IH)
  qed
qed

lemma get_text_part_leaves:
  "plain_are_leaves ps \<Longrightarrow> get_text_part L ps = decode_all L (plain_leaves ps)"
proof (induction L ps rule: get_text_part.induct)
  case (1 L)
  show ?case by simp
next
  case (2 L part rest)
  from "2.prems" have rest: "get_text_part L rest = decode_all L (plain_leaves rest)"
    by (intro "2.IH"(2)) simp
  show ?case
  proof (cases "p_parts part")
    case None
    then show ?thesis
      by (simp add: rest decode_all_append bind_exn_Inr)
  next
    case (Some qs)
    with "2.prems" have ne: "p_mimeType part \<noteq> ''text/plain''" and "plain_are_leaves qs"
      by simp_all
    then have "get_text_part L qs = decode_all L (plain_leaves qs)"
      using Some by (intro "2.IH"(1))
    with ne Some show ?thesis
      by (simp add: rest decode_all_append)
  qed
qed

text \<open>
  C4, as the code has it. For a message with a part tree in which \<open>text/plain\<close> parts
  are leaves, the body is the text the specification describes: the decoded data of
  the \<open>text/plain\<close> leaves, depth first and from left to right, nothing of another
  leaf. A message without a part tree gives the decoded data of its own body whatever
  its type, and the empty text when it has no data.
\<close>

theorem parse_message_body_spec:
  "(p_parts (m_payload message) = Some ps \<longrightarrow> plain_are_leaves ps \<longrightarrow>
      parse_message_body L message = decode_all L (plain_leaves ps)
      \<and> parse_message_body L message = spec_body L message)
   \<and> (p_parts (m_payload message) = None \<longrightarrow>
      parse_message_body L message = decode_all L [m_payload message])"
proof -
  have "parse_message_body L message = decode_all L [m_payload message]"
    if "p_parts (m_payload message) = None"
    using that by (simp add: parse_message_body_def bind_exn_Inr split: option.splits)
  moreover have "parse_message_body L message = decode_all L (plain_leaves ps)"
    "parse_message_body L message = spec_body L message"
    if "p_parts (m_payload message) = Some ps" "plain_are_leaves ps"
    using that by (simp_all add: parse_message_body_def spec_body_def get_text_part_leaves)
  ultimately show ?thesis by blast
qed

theorem parse_message_body_spec_witness:
  "p_parts (m_payload multipart_message) \<noteq> None
   \<and> plain_are_leaves (the (p_parts (m_payload multipart_message)))
   \<and> parse_message_body sample_lib multipart_message = Inr ''Hello world''
   \<and> spec_body sample_lib multipart_message = Inr ''Hello world''
   \<and> p_parts (m_payload html_only_message) = None
   \<and> parse_message_body sample_lib html_only_message = Inr ''<p>Hi</p>''"
proof -
  let ?ps = "[Part ''text/plain'' (Some []) [] (data_body ''SGVsbG8='') None,
            Part ''text/html'' (Some []) [] (data_body ''PHA-SGk8L3A-'') None,
            Part ''multipart/alternative'' (Some []) [] no_body
              (Some [Part ''text/plain'' (Some []) [] (data_body ''IHdvcmxk'') None])]"
  have ps: "p_parts (m_payload multipart_message) = Some ?ps"
    by (simp add: multipart_message_def)
  have wf: "plain_are_leaves ?ps"
    by simp
  have dec: "decode_all sample_lib (plain_leaves ?ps) = Inr ''Hello world''"
    by (simp add: sample_lib_def data_body_def)
  have single: "p_parts (m_payload html_only_message) = None"
    by (simp add: html_only_message_def)
  have html: "decode_all sample_lib [m_payload html_only_message] = Inr ''<p>Hi</p>''"
    by (simp add: html_only_message_def sample_lib_def data_body_def)
  from parse_message_body_spec [of multipart_message ?ps sample_lib] ps wf
  have m: "parse_message_body sample_lib multipart_message = decode_all sample_lib (plain_leaves ?ps)"
    "parse_message_body sample_lib multipart_message = spec_body sample_lib multipart_message"
    by blast+
  from parse_message_body_spec [of html_only_message ?ps sample_lib] single
  have h: "parse_message_body sample_lib html_only_message
           = decode_all sample_lib [m_payload html_only_message]"
    by blast
  have 1: "parse_message_body sample_lib multipart_message = Inr ''Hello world''"
    by (simp only: m(1) dec)
  have 2: "spec_body sample_lib multipart_message = Inr ''Hello world''"
    by (simp only: m(2) [symmetric] 1)
  have 3: "parse_message_body sample_lib html_only_message = Inr ''<p>Hi</p>''"
    by (simp only: h html)
  have 4: "plain_are_leaves (the (p_parts (m_payload multipart_message)))"
    "p_parts (m_payload multipart_message) \<noteq> None"
    using wf by (simp_all only: ps option.sel) simp
  from 1 2 3 4 single show ?thesis
    by blast
qed

text \<open>
  The claim C4 as stated fails on a message that is a single \<open>text/html\<close> part: the
  specification's rule gives the empty body, the code returns the decoded HTML.
\<close>

theorem parse_message_body_html_counterexample:
  "p_parts (m_payload html_only_message) = None
   \<and> p_mimeType (m_payload html_only_message) = ''text/html''
   \<and> spec_body sample_lib html_only_message = Inr []
   \<and> parse_message_body sample_lib html_only_message = Inr ''<p>Hi</p>''
   \<and> parse_message_body sample_lib html_only_message \<noteq> spec_body sample_lib html_only_message"
  by (simp add: html_only_message_def spec_body_def parse_message_body_def sample_lib_def
      data_body_def)


section \<open>Properties of the two attachment scans\<close>

lemma scan_filenames_ex: "scan_filenames ps = list_ex has_filename ps"
  by (induction ps) (simp_all add: has_filename_def)

lemma find_attachments_all_parts:
  "find_attachments ps = map attachment_of (filter is_attachment (all_parts ps))"
proof (induction ps rule: find_attachments.induct)
  case 1
  show ?case by simp
next
  case (2 part rest)
  then show ?case
    by (cases "p_parts part") simp_all
qed

lemma all_parts_top_nested: "set (all_parts ps) = set ps \<union> set (nested_parts ps)"
proof (induction ps rule: all_parts.induct)
  case 1
  show ?case by (simp add: nested_parts_def)
next
  case (2 part rest)
  then show ?case
    by (cases "p_parts part") (auto simp: nested_parts_def)
qed

lemma find_attachments_nonempty:
  assumes "list_ex is_attachment (nested_parts ps)"
  shows "find_attachments ps \<noteq> []"
proof -
  from assms obtain p where "p \<in> set (nested_parts ps)" "is_attachment p"
    by (auto simp: list_ex_iff)
  then have "p \<in> set (filter is_attachment (all_parts ps))"
    by (simp add: all_parts_top_nested)
  then have "filter is_attachment (all_parts ps) \<noteq> []"
    by (metis empty_iff empty_set)
  then show ?thesis
    by (simp add: find_attachments_all_parts)
qed

text \<open>
  C9, as the code has it. The projected flag is a scan of the immediate part list for
  a non-empty filename; the listing walks the whole part tree and keeps the parts that
  have a non-empty filename and a non-empty attachment id. So for a fetched message
  with no filename at the top level and, strictly below it, a part with a filename and
  an attachment id, the flag is false and the listing is not empty.
\<close>

theorem shallow_flag_deep_listing:
  "(p_parts (m_payload message) = Some ps \<longrightarrow>
      check_message_has_attachments message = list_ex has_filename ps)
   \<and> (messages_get svc user_id message_id = Inr message \<longrightarrow>
        p_parts (m_payload message) = Some ps \<longrightarrow>
          fst (list_message_attachments svc w message_id user_id)
            = Inr (map attachment_of (filter is_attachment (all_parts ps))))
   \<and> (messages_get svc user_id message_id = Inr message \<longrightarrow>
        p_parts (m_payload message) = Some ps \<longrightarrow>
        \<not> list_ex has_filename ps \<longrightarrow> list_ex is_attachment (nested_parts ps) \<longrightarrow>
          \<not> check_message_has_attachments message
          \<and> fst (list_message_attachments svc w message_id user_id) \<noteq> Inr [])"
proof -
  have flag: "check_message_has_attachments message = list_ex has_filename ps"
    if "p_parts (m_payload message) = Some ps"
    using that by (simp add: check_message_has_attachments_def scan_filenames_ex)
  have listing: "fst (list_message_attachments svc w message_id user_id)
            = Inr (find_attachments ps)"
    if "messages_get svc user_id message_id = Inr message" "p_parts (m_payload message) = Some ps"
    using that by (simp add: list_message_attachments_def get_message_def)
  from flag listing show ?thesis
    using find_attachments_nonempty [of ps]
    by (auto simp: find_attachments_all_parts)
qed

theorem shallow_flag_deep_listing_witness:
  "messages_get sample_service ''me'' ''m3'' = Inr nested_attachment_message
   \<and> \<not> check_message_has_attachments nested_attachment_message
   \<and> fst (list_message_attachments sample_service world0 ''m3'' ''me'')
       = Inr [\<lparr>a_filename = ''report.pdf'', a_attachment_id = ''att-1'',
               a_mime_type = ''application/pdf'', a_size_bytes = 1024\<rparr>]"
proof -
  let ?ps = "[Part ''text/plain'' (Some []) [] (data_body ''SGVsbG8='') None,
               Part ''multipart/related'' (Some []) [] no_body
                 (Some [Part ''application/pdf'' (Some ''report.pdf'') []
                          \<lparr>b_data = None, b_attachmentId = Some ''att-1'', b_size = Some 1024\<rparr>
                          None])]"
  have g: "messages_get sample_service ''me'' ''m3'' = Inr nested_attachment_message"
    by (simp add: sample_service_def)
  have ps: "p_parts (m_payload nested_attachment_message) = Some ?ps"
    by (simp add: nested_attachment_message_def)
  have top: "\<not> list_ex has_filename ?ps"
    by (simp add: has_filename_def)
  have below: "list_ex is_attachment (nested_parts ?ps)"
    by (simp add: nested_parts_def is_attachment_def)
  have v: "map attachment_of (filter is_attachment (all_parts ?ps))
      = [\<lparr>a_filename = ''report.pdf'', a_attachment_id = ''att-1'',
               a_mime_type = ''application/pdf'', a_size_bytes = 1024\<rparr>]"
    by (simp add: is_attachment_def attachment_of_def data_body_def no_body_def)
  from shallow_flag_deep_listing
    [of nested_attachment_message ?ps sample_service "''me''" "''m3''" world0] g ps top below
  have c: "\<not> check_message_has_attachments nested_attachment_message"
    and l: "fst (list_message_attachments sample_service world0 ''m3'' ''me'')
       = Inr (map attachment_of (filter is_attachment (all_parts ?ps)))"
    by blast+
  from g c l [unfolded v] show ?thesis
    by blast
qed

text \<open>
  The claim C9 as stated fails on a message whose only part with a filename lies below
  the top level and has no attachment id: the flag is false and the listing is empty
  too.
\<close>

theorem inline_filename_counterexample:
  "messages_get sample_service ''me'' ''m4'' = Inr nested_inline_message
   \<and> list_ex has_filename (nested_parts (the (p_parts (m_payload nested_inline_message))))
   \<and> \<not> list_ex has_filename (the (p_parts (m_payload nested_inline_message)))
   \<and> \<not> check_message_has_attachments nested_inline_message
   \<and> fst (list_message_attachments sample_service world0 ''m4'' ''me'') = Inr []"
  by (simp add: sample_service_def nested_inline_message_def nested_parts_def has_filename_def
      check_message_has_attachments_def list_message_attachments_def get_message_def
      is_attachment_def data_body_def no_body_def)


section \<open>Properties of search\_emails\<close>

lemma search_loop_no_listing:
  "ListRequest u n q \<in> set (requests (snd (search_loop L svc cfg w i msgs md ml)))
   \<Longrightarrow> ListRequest u n q \<in> set (requests w)"
proof (induction msgs arbitrary: w i md ml)
  case Nil
  then show ?case by simp
next
  case (Cons msg_info rest)
  let ?w' = "w\<lparr>requests := requests w @ [GetRequest (cfg_user_id cfg) (info_id msg_info)]\<rparr>"
  have step: "ListRequest u n q \<in> set (requests ?w') \<Longrightarrow> ListRequest u n q \<in> set (requests w)"
    by simp
  from Cons.prems have "ListRequest u n q \<in> set (requests ?w')"
    by (auto simp: get_message_def split: sum.splits dest: Cons.IH)
  then show ?case by (rule step)
qed

lemma src_gmail_sel:
  "gm_get_headers_dict (src_gmail L) = get_headers_dict"
  "gm_parse_message_body (src_gmail L) = parse_message_body L"
  "gm_get_message (src_gmail L) = get_message"
  "gm_list_messages (src_gmail L) = list_messages"
  "gm_search_messages (src_gmail L) = search_messages"
  by (simp_all add: src_gmail_def)

lemma found_loop_no_listing:
  "ListRequest u n q \<in> set (requests (snd (found_loop (src_gmail L) svc cfg w fs msgs res)))
   \<Longrightarrow> ListRequest u n q \<in> set (requests w)"
proof (induction msgs arbitrary: w res)
  case Nil
  then show ?case by simp
next
  case (Cons msg_info rest)
  let ?w' = "w\<lparr>requests := requests w @ [GetRequest (cfg_user_id cfg) (info_id msg_info)]\<rparr>"
  have step: "ListRequest u n q \<in> set (requests ?w') \<Longrightarrow> ListRequest u n q \<in> set (requests w)"
    by simp
  from Cons.prems have "ListRequest u n q \<in> set (requests ?w')"
    by (auto simp: get_message_def src_gmail_sel split: sum.splits dest: Cons.IH)
  then show ?case by (rule step)
qed

lemma search_listing_conflict:
  assumes "truthy (arg_gmail_query a)" "explicit_params_given a"
  shows "\<exists>msg. search_listing svc cfg w a = (Inl (ToolError msg), w)"
  using assms by (simp add: search_listing_def)

lemma search_listing_query:
  assumes "ListRequest u n q \<in> set (requests (snd (search_listing svc cfg w a)))"
  shows "ListRequest u n q \<in> set (requests w)
     \<or> (truthy (arg_gmail_query a) \<and> \<not> explicit_params_given a \<and> q = the (arg_gmail_query a))
     \<or> (\<not> truthy (arg_gmail_query a) \<and> q = search_query (filter_of_args a))"
  using assms
  by (auto simp: search_listing_def list_messages_def search_messages_def Let_def
      split: if_splits sum.splits)

lemma search_emails_query:
  assumes "ListRequest u n q \<in> set (requests (snd (search_emails L svc cfg w a)))"
  shows "ListRequest u n q \<in> set (requests w)
     \<or> (truthy (arg_gmail_query a) \<and> \<not> explicit_params_given a \<and> q = the (arg_gmail_query a))
     \<or> (\<not> truthy (arg_gmail_query a) \<and> q = search_query (filter_of_args a))"
proof (cases "search_listing svc cfg w a")
  case (Pair r w')
  show ?thesis
  proof (cases r)
    case (Inl e)
    with Pair assms have "ListRequest u n q \<in> set (requests (snd (search_listing svc cfg w a)))"
      by (simp add: search_emails_def)
    then show ?thesis by (rule search_listing_query)
  next
    case (Inr mq)
    obtain messages query_str where mq: "mq = (messages, query_str)"
      by (cases mq)
    from assms have "ListRequest u n q \<in> set (requests (snd
        (search_loop L svc cfg w' 1 messages (search_header query_str (length messages)) [])))"
      by (auto simp: search_emails_def Pair Inr mq Let_def split: prod.splits sum.splits)
    then have "ListRequest u n q \<in> set (requests w')"
      by (rule search_loop_no_listing)
    with Pair have "ListRequest u n q \<in> set (requests (snd (search_listing svc cfg w a)))"
      by simp
    then show ?thesis by (rule search_listing_query)
  qed
qed

lemma mcp_search_emails_conflict:
  assumes "truthy (arg_gmail_query a)" "explicit_params_given a"
  shows "\<exists>msg. mcp_search_emails G svc cfg w a fields' = (Inl (ToolError msg), w)"
  using assms by (simp add: mcp_search_emails_def Let_def)

lemma mcp_search_emails_query:
  assumes "ListRequest u n q \<in> set (requests (snd (mcp_search_emails (src_gmail L) svc cfg w a fields')))"
  shows "ListRequest u n q \<in> set (requests w)
     \<or> (truthy (arg_gmail_query a) \<and> \<not> explicit_params_given a \<and> q = the (arg_gmail_query a))
     \<or> (\<not> truthy (arg_gmail_query a) \<and> q = search_query (filter_of_args a))"
  using assms
  by (auto simp: mcp_search_emails_def Let_def src_gmail_sel list_messages_def
        search_messages_def
      split: if_splits sum.splits dest!: found_loop_no_listing)

text \<open>
  C1. A raw query is supplied when \<open>gmail_query\<close> is a non-empty string, and a structured
  predicate is set when it is not absent and not false. Whenever both hold, each of the
  two \<open>search_emails\<close> tools fails with a \<open>ToolError\<close> and asks the provider nothing.
  The two forms are never merged: a listing the tool asks of the provider carries
  either the raw query as it was given, and then no predicate is set, or the query
  built from the predicates, and then no raw query is supplied.
\<close>

theorem raw_query_excludes_predicates:
  "(truthy (arg_gmail_query a) \<longrightarrow> explicit_params_given a \<longrightarrow>
      (\<exists>msg. search_emails L svc cfg w a = (Inl (ToolError msg), w))
      \<and> (\<exists>msg. mcp_search_emails G svc cfg w a fields' = (Inl (ToolError msg), w)))
   \<and> (ListRequest u n q \<in> set (requests (snd (search_emails L svc cfg w a))) \<longrightarrow>
        ListRequest u n q \<in> set (requests w)
        \<or> (truthy (arg_gmail_query a) \<and> \<not> explicit_params_given a
            \<and> q = the (arg_gmail_query a))
        \<or> (\<not> truthy (arg_gmail_query a) \<and> q = search_query (filter_of_args a)))
   \<and> (ListRequest u n q
         \<in> set (requests (snd (mcp_search_emails (src_gmail L) svc cfg w a fields'))) \<longrightarrow>
        ListRequest u n q \<in> set (requests w)
        \<or> (truthy (arg_gmail_query a) \<and> \<not> explicit_params_given a
            \<and> q = the (arg_gmail_query a))
        \<or> (\<not> truthy (arg_gmail_query a) \<and> q = search_query (filter_of_args a)))"
proof -
  have "\<exists>msg. search_emails L svc cfg w a = (Inl (ToolError msg), w)"
    if "truthy (arg_gmail_query a)" "explicit_params_given a"
  proof -
    from that obtain msg where "search_listing svc cfg w a = (Inl (ToolError msg), w)"
      using search_listing_conflict by blast
    then show ?thesis
      by (simp add: search_emails_def)
  qed
  then show ?thesis
    using mcp_search_emails_conflict [of a G svc cfg w fields']
      search_emails_query [of u n q L svc cfg w a]
      mcp_search_emails_query [of u n q L svc cfg w a fields']
    by blast
qed

theorem raw_query_excludes_predicates_witness:
  "truthy (arg_gmail_query (no_args\<lparr>arg_gmail_query := Some ''is:read'',
                                    arg_from_email := Some ''a@b.com''\<rparr>))
   \<and> explicit_params_given (no_args\<lparr>arg_gmail_query := Some ''is:read'',
                                    arg_from_email := Some ''a@b.com''\<rparr>)
   \<and> (\<exists>msg. search_emails sample_lib sample_service sample_config world0
               (no_args\<lparr>arg_gmail_query := Some ''is:read'', arg_from_email := Some ''a@b.com''\<rparr>)
             = (Inl (ToolError msg), world0))
   \<and> (\<exists>msg. mcp_search_emails (src_gmail sample_lib) sample_service sample_config world0
               (no_args\<lparr>arg_gmail_query := Some ''is:read'', arg_from_email := Some ''a@b.com''\<rparr>)
               None
             = (Inl (ToolError msg), world0))"
proof -
  let ?a = "no_args\<lparr>arg_gmail_query := Some ''is:read'', arg_from_email := Some ''a@b.com''\<rparr>"
  have t: "truthy (arg_gmail_query ?a)"
    by simp
  have e: "explicit_params_given ?a"
    by (simp add: explicit_params_given_def)
  from raw_query_excludes_predicates
         [of ?a sample_lib sample_service sample_config world0 "src_gmail sample_lib" None] t e
  show ?thesis
    by blast
qed

text \<open>
  C10 at the input \<open>read_status = 'unread'\<close>: the provider is asked for \<open>is:unread\<close>,
  while the head of the document and the \<open>query\<close> of the result say \<open>all messages\<close>.
  With the sender added, the provider is asked for \<open>is:unread from:a@b.com\<close> and the
  result says \<open>from:a@b.com\<close>.
\<close>

theorem search_emails_query_mismatch:
  "requests (snd (search_emails sample_lib quiet_service sample_config world0
                    (no_args\<lparr>arg_read_status := Some ''unread''\<rparr>)))
     = [ListRequest ''me'' 10 ''is:unread'']
   \<and> fst (search_emails sample_lib quiet_service sample_config world0
            (no_args\<lparr>arg_read_status := Some ''unread''\<rparr>))
     = Inr \<lparr>sr_path = ''/tmp/export/search_all messages_0_results.md'', sr_size_bytes = 76,
            sr_match_count = 0, sr_query = ''all messages'', sr_metadata_list = []\<rparr>
   \<and> files (snd (search_emails sample_lib quiet_service sample_config world0
                   (no_args\<lparr>arg_read_status := Some ''unread''\<rparr>)))
        ''/tmp/export/search_all messages_0_results.md''
     = Some (''# Gmail Search Results'' @ nl @ nl
             @ ''**Query:** all messages'' @ nl
             @ ''**Results:** 0 emails'' @ nl @ nl
             @ ''---'' @ nl @ nl)
   \<and> search_query (filter_of_args (no_args\<lparr>arg_read_status := Some ''unread'',
                                             arg_from_email := Some ''a@b.com''\<rparr>))
     = ''is:unread from:a@b.com''
   \<and> result_query_str (no_args\<lparr>arg_read_status := Some ''unread'',
                                 arg_from_email := Some ''a@b.com''\<rparr>)
     = ''from:a@b.com''"
proof -
  let ?a = "no_args\<lparr>arg_read_status := Some ''unread''\<rparr>"
  have v: "validate_date_format None"
    by (simp add: validate_date_format_def)
  have l: "search_listing quiet_service sample_config world0 ?a
           = (Inr ([], ''all messages''),
              world0\<lparr>requests := [ListRequest ''me'' 10 ''is:unread'']\<rparr>)"
    by (simp add: search_listing_def search_messages_def list_messages_def v
        search_query_def query_parts_def filter_of_args_def append_flag_def
        quiet_service_def sample_config_def world0_def no_args_def result_query_str_def
        append_str_def)
  have f: "sanitize_filename ''search_all messages_0_results.md''
           = ''search_all messages_0_results.md''"
    by (simp add: sanitize_filename_def safe_char_def allowed_char_def isalnum_def
        startswith_def)
  have h: "search_header ''all messages'' 0
           = ''# Gmail Search Results'' @ nl @ nl
             @ ''**Query:** all messages'' @ nl
             @ ''**Results:** 0 emails'' @ nl @ nl
             @ ''---'' @ nl @ nl"
    by (simp add: search_header_def show_nat.simps digit_char_def)
  have n: "utf8_len (search_header ''all messages'' 0) = 76"
    by (simp add: h utf8_len_def)
  have s: "search_emails sample_lib quiet_service sample_config world0 ?a
     = (Inr \<lparr>sr_path = ''/tmp/export/search_all messages_0_results.md'', sr_size_bytes = 76,
            sr_match_count = 0, sr_query = ''all messages'', sr_metadata_list = []\<rparr>,
        world0\<lparr>requests := [ListRequest ''me'' 10 ''is:unread''],
               files := (Map.empty(''/tmp/export/search_all messages_0_results.md''
                  \<mapsto> search_header ''all messages'' 0))\<rparr>)"
    unfolding search_emails_def l
    by (simp add: n f [simplified] sample_config_def world0_def show_nat.simps digit_char_def
        Let_def)
  have q2: "search_query (filter_of_args (no_args\<lparr>arg_read_status := Some ''unread'',
                                             arg_from_email := Some ''a@b.com''\<rparr>))
     = ''is:unread from:a@b.com''"
    by (simp add: search_query_def query_parts_def filter_of_args_def no_args_def
        append_str_def append_flag_def)
  have r2: "result_query_str (no_args\<lparr>arg_read_status := Some ''unread'',
                                 arg_from_email := Some ''a@b.com''\<rparr>)
     = ''from:a@b.com''"
    by (simp add: result_query_str_def no_args_def append_str_def)
  show ?thesis
    unfolding s using h q2 r2 by simp
qed


section \<open>Properties of the field projection\<close>

lemma append_line_if_eq: "append_line_if c line xs = xs @ (if c then [line] else [])"
  by (simp add: append_line_if_def)

lemma field_block_simps:
  "field_block G message message_id body ''id'' = [''Message ID: '' @ message_id]"
  "field_block G message message_id body ''thread_id'' =
     (if (case m_threadId message of None \<Rightarrow> [] | Some t \<Rightarrow> t) \<noteq> []
      then [''Thread ID: '' @ (case m_threadId message of None \<Rightarrow> [] | Some t \<Rightarrow> t)] else [])"
  "field_block G message message_id body ''from'' =
     [''From: '' @ dict_get (gm_get_headers_dict G message) ''From'' ''Unknown'']"
  "field_block G message message_id body ''to'' =
     [''To: '' @ dict_get (gm_get_headers_dict G message) ''To'' ''Unknown'']"
  "field_block G message message_id body ''subject'' =
     [''Subject: '' @ dict_get (gm_get_headers_dict G message) ''Subject'' ''No Subject'']"
  "field_block G message message_id body ''date'' =
     [''Date: '' @ dict_get (gm_get_headers_dict G message) ''Date'' ''Unknown Date'']"
  "field_block G message message_id body ''labels'' =
     (if (case m_labelIds message of None \<Rightarrow> [] | Some ls \<Rightarrow> ls) \<noteq> []
      then [''Labels: '' @ join '', '' (case m_labelIds message of None \<Rightarrow> [] | Some ls \<Rightarrow> ls)]
      else [])"
  "field_block G message message_id body ''has_attachments'' =
     [''Has Attachments: ''
      @ show_bool (case p_parts (m_payload message) of
                     Some ps \<Rightarrow> scan_filenames ps
                   | None \<Rightarrow> False)]"
  "field_block G message message_id body ''web_url'' =
     [''Web URL: '' @ get_gmail_web_url message_id 0]"
  "field_block G message message_id body ''body_preview'' = [preview_line body]"
  "field_block G message message_id body ''body'' = [nl @ ''Body:'' @ nl @ body]"
  by (simp_all add: field_block_def scan_filenames_ex split: option.splits)

lemma if_conj_list: "(if a \<and> b then xs else []) = (if a then (if b then xs else []) else [])"
  by simp

lemma header_lines_blocks:
  "header_lines G message message_id fields' =
     concat (map (\<lambda>name. if name \<in> fields'
                          then field_block G message message_id body name else [])
               [''id'', ''thread_id'', ''from'', ''to'', ''subject'', ''date'', ''labels'',
                ''has_attachments'', ''web_url''])"
  unfolding header_lines_def Let_def append_line_if_eq if_conj_list
  by (simp only: field_block_simps list.map concat.simps append_Nil append_Nil2 append_assoc)

lemma render_order_split:
  "render_order =
     [''id'', ''thread_id'', ''from'', ''to'', ''subject'', ''date'', ''labels'',
      ''has_attachments'', ''web_url''] @ [''body_preview''] @ [''body'']"
  by (simp add: render_order_def)

lemma format_message_with_fields_no_body:
  assumes "''body_preview'' \<notin> fields'" "''body'' \<notin> fields'"
  shows "format_message_with_fields G message message_id fields'
         = Inr (rendered_in render_order G message message_id body fields')"
  using assms
  unfolding format_message_with_fields_def rendered_in_def render_order_split
    header_lines_blocks [of G message message_id fields' body]
  by (simp add: Let_def split del: if_split cong: if_cong)

lemma format_message_with_fields_body:
  assumes "gm_parse_message_body G message = Inr body"
  shows "format_message_with_fields G message message_id fields'
         = Inr (rendered_in render_order G message message_id body fields')"
proof -
  have p: "[preview_line body] = field_block G message message_id body ''body_preview''"
    and b: "[nl @ ''Body:'' @ nl @ body] = field_block G message message_id body ''body''"
    by (simp_all add: field_block_def)
  show ?thesis
    unfolding format_message_with_fields_def rendered_in_def render_order_split
      header_lines_blocks [of G message message_id fields' body] assms Let_def
    by (cases "''body_preview'' \<in> fields'"; cases "''body'' \<in> fields'")
       (simp_all add: p [symmetric] b [symmetric] split del: if_split cong: if_cong)
qed

lemma format_message_with_fields_raises:
  assumes "gm_parse_message_body G message = Inl e"
    and "''body_preview'' \<in> fields' \<or> ''body'' \<in> fields'"
  shows "format_message_with_fields G message message_id fields' = Inl e"
  using assms by (auto simp: format_message_with_fields_def Let_def)

lemma parse_message_fields_cases:
  "parse_message_fields None = DEFAULT_MESSAGE_FIELDS"
  "lower fp = ''all'' \<Longrightarrow> parse_message_fields (Some fp) = AVAILABLE_MESSAGE_FIELDS"
  "lower fp \<noteq> ''all'' \<Longrightarrow> requested_names fp \<inter> AVAILABLE_MESSAGE_FIELDS = {}
     \<Longrightarrow> parse_message_fields (Some fp) = DEFAULT_MESSAGE_FIELDS"
  "lower fp \<noteq> ''all'' \<Longrightarrow> requested_names fp \<inter> AVAILABLE_MESSAGE_FIELDS \<noteq> {}
     \<Longrightarrow> parse_message_fields (Some fp) = requested_names fp \<inter> AVAILABLE_MESSAGE_FIELDS"
  by (simp_all add: parse_message_fields_def Let_def)

lemma render_order_fields:
  "set render_order = AVAILABLE_MESSAGE_FIELDS" "distinct render_order"
  by (auto simp: render_order_def AVAILABLE_MESSAGE_FIELDS_def)

lemma char_eq_char_of: "c = char_of n \<longleftrightarrow> take_bit 8 n = (of_char c :: nat)"
  using char_of_eq_iff [of n c] by auto

lemma subject_from_fields:
  "parse_message_fields (Some ''Subject, from ,bogus'') = {''subject'', ''from''}"
  "parse_message_fields (Some ''from,subject'') = {''subject'', ''from''}"
  by (auto simp: parse_message_fields_def requested_names_def strip_def isspace_def lower_def
      lower_char_def char_of_eq_iff char_eq_char_of AVAILABLE_MESSAGE_FIELDS_def Let_def)

lemma multipart_headers:
  "dict_get (get_headers_dict multipart_message) ''From'' d = ''a@b.com''"
  "dict_get (get_headers_dict multipart_message) ''Subject'' d = ''Hi''"
  "dict_get (get_headers_dict multipart_message) ''Date'' d = ''Tue, 28 Oct 2025 16:56:35 +0000''"
  "dict_get (get_headers_dict multipart_message) ''To'' d = d"
  by (simp_all add: dict_get_def get_headers_dict_def multipart_message_def)

text \<open>
  C3, as the code has it. The projection renders the requested known fields in the
  fixed order id, thread\_id, from, to, subject, date, labels, has\_attachments,
  web\_url, body\_preview, body, whatever the order of the request: one labelled line
  per field, no line for a thread id or a label list that is empty, and the body as a
  block. An absent request and a request with no known name give the default set
  \<open>{id, subject, from, date}\<close>; \<open>all\<close>, in any letter case, gives the eleven fields.
\<close>

theorem field_projection_order:
  "(gm_parse_message_body G message = Inr body
      \<or> (''body_preview'' \<notin> fields' \<and> ''body'' \<notin> fields') \<longrightarrow>
      format_message_with_fields G message message_id fields'
        = Inr (rendered_in render_order G message message_id body fields'))
   \<and> set render_order = AVAILABLE_MESSAGE_FIELDS \<and> distinct render_order
   \<and> parse_message_fields None = DEFAULT_MESSAGE_FIELDS
   \<and> DEFAULT_MESSAGE_FIELDS = {''id'', ''subject'', ''from'', ''date''}
   \<and> (lower fp = ''all'' \<longrightarrow> parse_message_fields (Some fp) = AVAILABLE_MESSAGE_FIELDS)
   \<and> (lower fp \<noteq> ''all'' \<longrightarrow> requested_names fp \<inter> AVAILABLE_MESSAGE_FIELDS = {} \<longrightarrow>
        parse_message_fields (Some fp) = DEFAULT_MESSAGE_FIELDS)
   \<and> (lower fp \<noteq> ''all'' \<longrightarrow> requested_names fp \<inter> AVAILABLE_MESSAGE_FIELDS \<noteq> {} \<longrightarrow>
        parse_message_fields (Some fp) = requested_names fp \<inter> AVAILABLE_MESSAGE_FIELDS)"
proof -
  have 1: "gm_parse_message_body G message = Inr body
      \<or> (''body_preview'' \<notin> fields' \<and> ''body'' \<notin> fields') \<longrightarrow>
      format_message_with_fields G message message_id fields'
        = Inr (rendered_in render_order G message message_id body fields')"
    using format_message_with_fields_body format_message_with_fields_no_body
    by blast
  have 2: "DEFAULT_MESSAGE_FIELDS = {''id'', ''subject'', ''from'', ''date''}"
    by (simp add: DEFAULT_MESSAGE_FIELDS_def)
  have 3: "lower fp = ''all'' \<longrightarrow> parse_message_fields (Some fp) = AVAILABLE_MESSAGE_FIELDS"
    by (simp add: parse_message_fields_cases)
  have 4: "lower fp \<noteq> ''all'' \<longrightarrow> requested_names fp \<inter> AVAILABLE_MESSAGE_FIELDS = {} \<longrightarrow>
        parse_message_fields (Some fp) = DEFAULT_MESSAGE_FIELDS"
    by (simp add: parse_message_fields_cases)
  have 5: "lower fp \<noteq> ''all'' \<longrightarrow> requested_names fp \<inter> AVAILABLE_MESSAGE_FIELDS \<noteq> {} \<longrightarrow>
        parse_message_fields (Some fp) = requested_names fp \<inter> AVAILABLE_MESSAGE_FIELDS"
    by (simp add: parse_message_fields_cases)
  show ?thesis
    by (intro conjI) (fact 1 render_order_fields parse_message_fields_cases(1) 2 3 4 5)+
qed

theorem field_projection_order_witness:
  "gm_parse_message_body (src_gmail sample_lib) multipart_message = Inr ''Hello world''
   \<and> parse_message_fields (Some ''Subject, from ,bogus'') = {''subject'', ''from''}
   \<and> parse_message_fields (Some ''from,subject'') = {''subject'', ''from''}
   \<and> format_message_with_fields (src_gmail sample_lib) multipart_message ''m1''
        {''subject'', ''from''}
       = Inr (''From: a@b.com'' @ nl @ ''Subject: Hi'')
   \<and> lower ''ALL'' = ''all''
   \<and> parse_message_fields (Some ''ALL'') = AVAILABLE_MESSAGE_FIELDS
   \<and> format_message_with_fields (src_gmail sample_lib) multipart_message ''m1''
        AVAILABLE_MESSAGE_FIELDS
       = Inr (''Message ID: m1'' @ nl @ ''Thread ID: t2'' @ nl @ ''From: a@b.com'' @ nl
              @ ''To: Unknown'' @ nl @ ''Subject: Hi'' @ nl
              @ ''Date: Tue, 28 Oct 2025 16:56:35 +0000'' @ nl
              @ ''Has Attachments: False'' @ nl
              @ ''Web URL: https://mail.google.com/mail/u/0/#all/m1'' @ nl
              @ ''Preview: Hello world'' @ nl
              @ nl @ ''Body:'' @ nl @ ''Hello world'')"
proof -
  let ?G = "src_gmail sample_lib"
  have body: "gm_parse_message_body ?G multipart_message = Inr ''Hello world''"
    by (simp add: src_gmail_sel parse_message_body_def multipart_message_def sample_lib_def
        data_body_def)
  have low: "lower ''ALL'' = ''all''"
    by (simp add: lower_def lower_char_def char_of_eq_iff)
  have r1: "rendered_in render_order ?G multipart_message ''m1'' ''Hello world''
              {''subject'', ''from''}
            = ''From: a@b.com'' @ nl @ ''Subject: Hi''"
    by (simp add: rendered_in_def render_order_def field_block_simps src_gmail_sel
        multipart_headers)
  have pv: "preview_line ''Hello world'' = ''Preview: Hello world''"
    by (simp add: preview_line_def EMAIL_PREVIEW_LENGTH_def replace_char_def strip_def
        isspace_def)
  have ms: "m_threadId multipart_message = Some ''t2''" "m_labelIds multipart_message = None"
    "scan_filenames (the (p_parts (m_payload multipart_message))) = False"
    "p_parts (m_payload multipart_message) \<noteq> None"
    by (simp_all add: multipart_message_def)
  have url: "get_gmail_web_url ''m1'' 0 = ''https://mail.google.com/mail/u/0/#all/m1''"
    by (simp add: get_gmail_web_url_def show_int_def show_nat.simps digit_char_def)
  have r2: "rendered_in render_order ?G multipart_message ''m1'' ''Hello world''
              AVAILABLE_MESSAGE_FIELDS
            = ''Message ID: m1'' @ nl @ ''Thread ID: t2'' @ nl @ ''From: a@b.com'' @ nl
              @ ''To: Unknown'' @ nl @ ''Subject: Hi'' @ nl
              @ ''Date: Tue, 28 Oct 2025 16:56:35 +0000'' @ nl
              @ ''Has Attachments: False'' @ nl
              @ ''Web URL: https://mail.google.com/mail/u/0/#all/m1'' @ nl
              @ ''Preview: Hello world'' @ nl
              @ nl @ ''Body:'' @ nl @ ''Hello world''"
    using ms
    by (auto simp: rendered_in_def render_order_def field_block_simps src_gmail_sel
        multipart_headers AVAILABLE_MESSAGE_FIELDS_def pv url show_bool_def)
  from field_projection_order [of ?G multipart_message "''Hello world''" "{''subject'', ''from''}"
         "''m1''" "''ALL''"] body low
  have f1: "format_message_with_fields ?G multipart_message ''m1'' {''subject'', ''from''}
            = Inr (rendered_in render_order ?G multipart_message ''m1'' ''Hello world''
                     {''subject'', ''from''})"
    and all: "parse_message_fields (Some ''ALL'') = AVAILABLE_MESSAGE_FIELDS"
    by blast+
  from field_projection_order [of ?G multipart_message "''Hello world''"
         AVAILABLE_MESSAGE_FIELDS "''m1''" "''ALL''"] body
  have f2: "format_message_with_fields ?G multipart_message ''m1'' AVAILABLE_MESSAGE_FIELDS
            = Inr (rendered_in render_order ?G multipart_message ''m1'' ''Hello world''
                     AVAILABLE_MESSAGE_FIELDS)"
    by blast
  from body subject_from_fields f1 [unfolded r1] low all f2 [unfolded r2]
  show ?thesis
    by blast
qed

text \<open>
  The claim C3 as stated fails on the request \<open>subject,from\<close>: in the enumeration order
  of the specification the subject line would come first, and the code renders the
  sender first.
\<close>

theorem enumeration_order_counterexample:
  "format_message_with_fields (src_gmail sample_lib) multipart_message ''m1''
     (parse_message_fields (Some ''from,subject''))
     = Inr (''From: a@b.com'' @ nl @ ''Subject: Hi'')
   \<and> rendered_in enumeration_order (src_gmail sample_lib) multipart_message ''m1'' []
       (parse_message_fields (Some ''from,subject''))
     = ''Subject: Hi'' @ nl @ ''From: a@b.com''
   \<and> format_message_with_fields (src_gmail sample_lib) multipart_message ''m1''
       (parse_message_fields (Some ''from,subject''))
     \<noteq> Inr (rendered_in enumeration_order (src_gmail sample_lib) multipart_message ''m1'' []
             (parse_message_fields (Some ''from,subject'')))"
proof -
  let ?G = "src_gmail sample_lib"
  have f: "format_message_with_fields ?G multipart_message ''m1'' {''subject'', ''from''}
           = Inr (''From: a@b.com'' @ nl @ ''Subject: Hi'')"
    by (simp add: format_message_with_fields_no_body [where body = "[]"] rendered_in_def
        render_order_def field_block_simps src_gmail_sel multipart_headers)
  have e: "rendered_in enumeration_order ?G multipart_message ''m1'' [] {''subject'', ''from''}
           = ''Subject: Hi'' @ nl @ ''From: a@b.com''"
    by (simp add: rendered_in_def enumeration_order_def field_block_simps src_gmail_sel
        multipart_headers)
  show ?thesis
    unfolding subject_from_fields f e by simp
qed


section \<open>Properties of get\_emails\<close>

lemma fetch_loop_outcomes:
  "fetch_loop G svc cfg w ids retrieved errors =
     (retrieved @ successes (fst (outcomes G svc cfg w ids)),
      errors @ failures (fst (outcomes G svc cfg w ids)),
      snd (outcomes G svc cfg w ids))"
proof (induction ids arbitrary: w retrieved errors)
  case Nil
  show ?case by simp
next
  case (Cons msg_id rest)
  obtain r w' where g: "gm_get_message G svc w msg_id (cfg_user_id cfg) = (r, w')"
    by (cases "gm_get_message G svc w msg_id (cfg_user_id cfg)")
  obtain rs w'' where o: "outcomes G svc cfg w' rest = (rs, w'')"
    by (cases "outcomes G svc cfg w' rest")
  show ?case
    by (cases r) (simp_all add: g o Cons.IH)
qed

lemma outcomes_ids: "map fst (fst (outcomes G svc cfg w ids)) = ids"
proof (induction ids arbitrary: w)
  case Nil
  show ?case by simp
next
  case (Cons msg_id rest)
  obtain r w' where g: "gm_get_message G svc w msg_id (cfg_user_id cfg) = (r, w')"
    by (cases "gm_get_message G svc w msg_id (cfg_user_id cfg)")
  obtain rs w'' where o: "outcomes G svc cfg w' rest = (rs, w'')"
    by (cases "outcomes G svc cfg w' rest")
  from Cons.IH [of w'] show ?case
    by (simp add: g o)
qed

lemma outcomes_src:
  "outcomes (src_gmail L) svc cfg w ids =
     (map (\<lambda>msg_id. (msg_id, messages_get svc (cfg_user_id cfg) msg_id)) ids,
      w\<lparr>requests := requests w @ map (GetRequest (cfg_user_id cfg)) ids\<rparr>)"
  by (induction ids arbitrary: w) (simp_all add: src_gmail_sel get_message_def)

text \<open>
  C7. The fetching loop of \<open>get_emails\<close> invokes the per-item operation once for every
  identifier of the input, in order, whatever the earlier outcomes; the successes are
  collected in input order, the failures in a second list of identifier and error
  message, and the tool renders both. With the functions of gmail.py every identifier
  is requested from the provider. For three identifiers of which the second fails, the
  result holds the first and the third, in that order, and one failure for the second.
\<close>

theorem get_emails_collects_every_item:
  "fetch_loop G svc cfg w message_ids [] [] =
     (successes (fst (outcomes G svc cfg w message_ids)),
      failures (fst (outcomes G svc cfg w message_ids)),
      snd (outcomes G svc cfg w message_ids))
   \<and> map fst (fst (outcomes G svc cfg w message_ids)) = message_ids
   \<and> fst (outcomes (src_gmail L) svc cfg w message_ids)
       = map (\<lambda>msg_id. (msg_id, messages_get svc (cfg_user_id cfg) msg_id)) message_ids
   \<and> requests (snd (outcomes (src_gmail L) svc cfg w message_ids))
       = requests w @ map (GetRequest (cfg_user_id cfg)) message_ids
   \<and> (message_ids \<noteq> [] \<longrightarrow>
        get_emails G svc cfg w message_ids fields' =
          (bind_exn
             (render_retrieved G (parse_message_fields fields') 1
                (successes (fst (outcomes G svc cfg w message_ids)))
                (''Retrieved ''
                 @ show_nat (length (successes (fst (outcomes G svc cfg w message_ids))))
                 @ '' emails:'' @ nl))
             (\<lambda>result.
                Inr (if failures (fst (outcomes G svc cfg w message_ids)) \<noteq> []
                     then render_errors 1 (failures (fst (outcomes G svc cfg w message_ids)))
                            (result @ nl @ nl @ ''Failed to retrieve ''
                             @ show_nat (length (failures (fst (outcomes G svc cfg w message_ids))))
                             @ '' emails:'' @ nl)
                     else result)),
           snd (outcomes G svc cfg w message_ids)))"
  by (simp add: fetch_loop_outcomes [of G svc cfg w message_ids "[]" "[]", simplified]
      outcomes_ids outcomes_src get_emails_def Let_def)

theorem get_emails_collects_every_item_witness:
  "[''m1'', ''zz'', ''m3''] \<noteq> ([] :: string list)
   \<and> messages_get sample_service ''me'' ''zz'' = Inl (OtherError ''Requested entity was not found.'')
   \<and> fetch_loop (src_gmail sample_lib) sample_service sample_config world0
        [''m1'', ''zz'', ''m3''] [] []
       = ([(''m1'', multipart_message), (''m3'', nested_attachment_message)],
          [(''zz'', ''Requested entity was not found.'')],
          world0\<lparr>requests := [GetRequest ''me'' ''m1'', GetRequest ''me'' ''zz'',
                                GetRequest ''me'' ''m3'']\<rparr>)
   \<and> get_emails (src_gmail sample_lib) sample_service sample_config world0
        [''m1'', ''zz'', ''m3''] None
       = (Inr (''Retrieved 2 emails:'' @ nl
               @ nl @ ''--- Email 1 ---'' @ nl
               @ ''Message ID: m1'' @ nl @ ''From: a@b.com'' @ nl @ ''Subject: Hi'' @ nl
               @ ''Date: Tue, 28 Oct 2025 16:56:35 +0000'' @ nl
               @ nl @ ''--- Email 2 ---'' @ nl
               @ ''Message ID: m3'' @ nl @ ''From: Unknown'' @ nl @ ''Subject: Report'' @ nl
               @ ''Date: Unknown Date'' @ nl
               @ nl @ nl @ ''Failed to retrieve 1 emails:'' @ nl
               @ nl @ ''--- Email 1 (ID: zz) ---'' @ nl
               @ ''Error: Requested entity was not found.'' @ nl),
          world0\<lparr>requests := [GetRequest ''me'' ''m1'', GetRequest ''me'' ''zz'',
                                GetRequest ''me'' ''m3'']\<rparr>)"
proof -
  let ?G = "src_gmail sample_lib"
  let ?ids = "[''m1'', ''zz'', ''m3'']"
  let ?w = "world0\<lparr>requests := [GetRequest ''me'' ''m1'', GetRequest ''me'' ''zz'',
                                GetRequest ''me'' ''m3'']\<rparr>"
  have ne: "?ids \<noteq> []"
    by simp
  have zz: "messages_get sample_service ''me'' ''zz''
            = Inl (OtherError ''Requested entity was not found.'')"
    by (simp add: sample_service_def)
  have o: "outcomes ?G sample_service sample_config world0 ?ids
           = ([(''m1'', Inr multipart_message),
               (''zz'', Inl (OtherError ''Requested entity was not found.'')),
               (''m3'', Inr nested_attachment_message)], ?w)"
    unfolding outcomes_src
    by (simp add: sample_service_def sample_config_def world0_def)
  have d: "parse_message_fields None = {''id'', ''subject'', ''from'', ''date''}"
    by (simp add: parse_message_fields_def DEFAULT_MESSAGE_FIELDS_def)
  have h3: "dict_get (get_headers_dict nested_attachment_message) ''Subject'' x = ''Report''"
    "dict_get (get_headers_dict nested_attachment_message) ''From'' x = x"
    "dict_get (get_headers_dict nested_attachment_message) ''Date'' x = x" for x
    by (simp_all add: dict_get_def get_headers_dict_def nested_attachment_message_def)
  have f1: "format_message_with_fields ?G multipart_message ''m1''
              {''id'', ''subject'', ''from'', ''date''}
            = Inr (''Message ID: m1'' @ nl @ ''From: a@b.com'' @ nl @ ''Subject: Hi'' @ nl
                   @ ''Date: Tue, 28 Oct 2025 16:56:35 +0000'')"
    by (simp add: format_message_with_fields_no_body [where body = "[]"] rendered_in_def
        render_order_def field_block_simps src_gmail_sel multipart_headers)
  have f3: "format_message_with_fields ?G nested_attachment_message ''m3''
              {''id'', ''subject'', ''from'', ''date''}
            = Inr (''Message ID: m3'' @ nl @ ''From: Unknown'' @ nl @ ''Subject: Report'' @ nl
                   @ ''Date: Unknown Date'')"
    by (simp add: format_message_with_fields_no_body [where body = "[]"] rendered_in_def
        render_order_def field_block_simps src_gmail_sel h3)
  have n: "show_nat 1 = ''1''" "show_nat (Suc 0) = ''1''" "show_nat 2 = ''2''"
    "show_nat (Suc (Suc 0)) = ''2''"
    by (simp_all add: show_nat.simps digit_char_def)
  from get_emails_collects_every_item
         [of ?G sample_service sample_config world0 ?ids sample_lib None] ne
  have fl: "fetch_loop ?G sample_service sample_config world0 ?ids [] [] =
     (successes (fst (outcomes ?G sample_service sample_config world0 ?ids)),
      failures (fst (outcomes ?G sample_service sample_config world0 ?ids)),
      snd (outcomes ?G sample_service sample_config world0 ?ids))"
    and ge: "get_emails ?G sample_service sample_config world0 ?ids None =
          (bind_exn
             (render_retrieved ?G (parse_message_fields None) 1
                (successes (fst (outcomes ?G sample_service sample_config world0 ?ids)))
                (''Retrieved ''
                 @ show_nat (length (successes
                     (fst (outcomes ?G sample_service sample_config world0 ?ids))))
                 @ '' emails:'' @ nl))
             (\<lambda>result.
                Inr (if failures (fst (outcomes ?G sample_service sample_config world0 ?ids)) \<noteq> []
                     then render_errors 1
                            (failures (fst (outcomes ?G sample_service sample_config world0 ?ids)))
                            (result @ nl @ nl @ ''Failed to retrieve ''
                             @ show_nat (length (failures
                                 (fst (outcomes ?G sample_service sample_config world0 ?ids))))
                             @ '' emails:'' @ nl)
                     else result)),
           snd (outcomes ?G sample_service sample_config world0 ?ids))"
    by blast+
  have fl': "fetch_loop ?G sample_service sample_config world0 ?ids [] []
       = ([(''m1'', multipart_message), (''m3'', nested_attachment_message)],
          [(''zz'', ''Requested entity was not found.'')], ?w)"
    unfolding fl o by simp
  have ge': "get_emails ?G sample_service sample_config world0 ?ids None
       = (Inr (''Retrieved 2 emails:'' @ nl
               @ nl @ ''--- Email 1 ---'' @ nl
               @ ''Message ID: m1'' @ nl @ ''From: a@b.com'' @ nl @ ''Subject: Hi'' @ nl
               @ ''Date: Tue, 28 Oct 2025 16:56:35 +0000'' @ nl
               @ nl @ ''--- Email 2 ---'' @ nl
               @ ''Message ID: m3'' @ nl @ ''From: Unknown'' @ nl @ ''Subject: Report'' @ nl
               @ ''Date: Unknown Date'' @ nl
               @ nl @ nl @ ''Failed to retrieve 1 emails:'' @ nl
               @ nl @ ''--- Email 1 (ID: zz) ---'' @ nl
               @ ''Error: Requested entity was not found.'' @ nl), ?w)"
    unfolding ge o d by (simp add: f1 f3 n)
  from ne zz fl' ge' show ?thesis
    by (intro conjI)
qed


end
